theory Spec2Isabelle
  imports Main "HOL-Library.Word" "HOL-Library.Multiset"
begin

text \<open>
  A shallow embedding of the flashxroute client, an Ethereum JSON-RPC client with the
  bloXroute relay methods, and the properties of its core: the hexadecimal codec
  (\<open>helpers.go\<close>), the transport with its two error channels and the selector of
  \<open>BloxrouteSimulateBlock\<close> (\<open>flashxroute.go\<close>), and the decoding of blocks that carry
  transaction hashes only.

  Go functions become HOL functions of the same name. A function that returns a value
  and an error, or panics, returns an \<open>outcome\<close>; a function that talks to the network
  takes the world as an argument and returns the events it causes with its outcome. What
  belongs to the Go library (strconv, fmt, math/big, encoding/json, net/http) or to
  go-ethereum is modelled as far as the client depends on it, and said so where it is
  defined. The definitions come first, the properties after them.
\<close>

section \<open>Errors and outcomes\<close>

text \<open>
  Go functions of the client return a pair of a value and an error, or panic. An outcome
  is one of the three. The errors are the ones the client and the library calls it makes
  can produce.
\<close>

record RpcError =
  Code :: int
  Message :: string

datatype error =
    ErrSyntax                 \<comment> \<open>strconv: invalid syntax\<close>
  | ErrRange                  \<comment> \<open>strconv: value out of range\<close>
  | ErrUnexpectedEOF          \<comment> \<open>fmt.Sscan: input ended before a value was read\<close>
  | ErrInvalidRune            \<comment> \<open>math/big byteReader: rune wider than one byte\<close>
  | ErrNoDigits               \<comment> \<open>math/big: number has no digits\<close>
  | ErrSeparator              \<comment> \<open>math/big: misplaced underscore\<close>
  | SyntaxError               \<comment> \<open>encoding/json: body is not JSON text\<close>
  | UnmarshalTypeError        \<comment> \<open>encoding/json: JSON value does not fit the Go type\<close>
  | MarshalError              \<comment> \<open>encoding/json: value cannot be encoded\<close>
  | NewRequestError           \<comment> \<open>net/http: request cannot be built\<close>
  | TransportError string     \<comment> \<open>net/http: Do or reading the body failed\<close>
  | ProtocolError RpcError    \<comment> \<open>the RpcError value of the envelope, returned as error\<close>
  | RelayError string         \<comment> \<open>ErrRelayErrorResponse wrapped with a message\<close>

datatype panic = IndexOutOfRange | SliceBoundsOutOfRange

datatype 'a outcome = Ok 'a | Err error | Panic panic

section \<open>Wire numeric codec (helpers.go)\<close>

subsection \<open>Digits\<close>

definition hex_digit :: "nat \<Rightarrow> char" where
  "hex_digit d = ''0123456789abcdef'' ! d"

text \<open>The digits \<open>%x\<close> prints for a magnitude: lowercase, no leading zero, \<open>0\<close> for zero.\<close>

fun hex_nat :: "nat \<Rightarrow> string" where
  "hex_nat n = (if n < 16 then [hex_digit n] else hex_nat (n div 16) @ [hex_digit (n mod 16)])"

declare hex_nat.simps [simp del]

text \<open>
  The value strconv and math/big give a byte as a digit: \<open>0-9\<close>, then letters of either
  case from ten on. A byte that is no digit in any base has no value.
\<close>

definition digit_val :: "char \<Rightarrow> nat option" where
  "digit_val c =
     (let k = (of_char c :: nat) in
      if 48 \<le> k \<and> k \<le> 57 then Some (k - 48)
      else if 97 \<le> k \<and> k \<le> 122 then Some (k - 97 + 10)
      else if 65 \<le> k \<and> k \<le> 90 then Some (k - 65 + 10)
      else None)"

definition TrimPrefix :: "string \<Rightarrow> string \<Rightarrow> string" where
  "TrimPrefix s p = (if take (length p) s = p then drop (length p) s else s)"

subsection \<open>strconv.ParseInt with bit size 64\<close>

definition maxUint64 :: nat where
  "maxUint64 = 2 ^ 64 - 1"

text \<open>
  The loop of strconv.ParseUint over the bytes of the string, with the accumulator \<open>n\<close>.
  The base is never 0 here, so an underscore is a syntax error like any other non-digit.
  The first out-of-range step returns at once, before the rest is looked at.
\<close>

fun ParseUint_loop :: "nat \<Rightarrow> nat \<Rightarrow> string \<Rightarrow> error + nat" where
  "ParseUint_loop base n [] = Inr n"
| "ParseUint_loop base n (c # cs) =
     (case digit_val c of
        None \<Rightarrow> Inl ErrSyntax
      | Some d \<Rightarrow>
          if d \<ge> base then Inl ErrSyntax
          else if n \<ge> maxUint64 div base + 1 then Inl ErrRange
          else if n * base + d > maxUint64 then Inl ErrRange
          else ParseUint_loop base (n * base + d) cs)"

definition ParseUint :: "string \<Rightarrow> nat \<Rightarrow> error + nat" where
  "ParseUint s base = (if s = [] then Inl ErrSyntax else ParseUint_loop base 0 s)"

text \<open>
  strconv.ParseInt(s, base, 64): an optional sign, then ParseUint, then the check against
  \<open>2^63\<close>. The result is a Go int64 as an integer in its range.
\<close>

definition strconv_ParseInt :: "string \<Rightarrow> nat \<Rightarrow> error + int" where
  "strconv_ParseInt s base =
     (case s of
        [] \<Rightarrow> Inl ErrSyntax
      | c # cs \<Rightarrow>
          let neg = (c = CHR ''-'');
              s' = (if c = CHR ''+'' \<or> c = CHR ''-'' then cs else s)
          in (case ParseUint s' base of
                Inl e \<Rightarrow> Inl e
              | Inr un \<Rightarrow>
                  if \<not> neg \<and> un \<ge> 2 ^ 63 then Inl ErrRange
                  else if neg \<and> un > 2 ^ 63 then Inl ErrRange
                  else Inr (if neg then - int un else int un)))"

subsection \<open>ParseInt and IntToHex\<close>

text \<open>
  A Go \<open>int\<close> is taken as 64 bits wide: an integer between \<open>-2^63\<close> and \<open>2^63 - 1\<close>.
  ParseInt returns \<open>0\<close> with the error when strconv fails.
\<close>

definition ParseInt :: "string \<Rightarrow> error + int" where
  "ParseInt v = strconv_ParseInt (TrimPrefix v ''0x'') 16"

text \<open>\<open>%x\<close> of a Go int: a minus sign before the digits of the magnitude when negative.\<close>

definition fmt_x_int :: "int \<Rightarrow> string" where
  "fmt_x_int i = (if i < 0 then CHR ''-'' # hex_nat (nat (- i)) else hex_nat (nat i))"

definition IntToHex :: "int \<Rightarrow> string" where
  "IntToHex i = ''0x'' @ fmt_x_int i"

subsection \<open>BigToHex\<close>

text \<open>
  A \<open>big.Int\<close> is an integer. \<open>BitLen\<close> is the length of the magnitude in bits,
  \<open>Bytes\<close> the magnitude as big-endian bytes without leading zero bytes, and \<open>%x\<close> of a
  byte slice prints two digits for each byte.
\<close>

type_synonym byte = "8 word"

fun nat_bitlen :: "nat \<Rightarrow> nat" where
  "nat_bitlen n = (if n = 0 then 0 else Suc (nat_bitlen (n div 2)))"

declare nat_bitlen.simps [simp del]

definition BitLen :: "int \<Rightarrow> nat" where
  "BitLen x = nat_bitlen (nat \<bar>x\<bar>)"

fun nat_bytes :: "nat \<Rightarrow> nat list" where
  "nat_bytes n = (if n = 0 then [] else nat_bytes (n div 256) @ [n mod 256])"

declare nat_bytes.simps [simp del]

definition Bytes :: "int \<Rightarrow> byte list" where
  "Bytes x = map of_nat (nat_bytes (nat \<bar>x\<bar>))"

definition fmt_x_bytes :: "byte list \<Rightarrow> string" where
  "fmt_x_bytes bs =
     concat (map (\<lambda>b. [hex_digit (unat b div 16), hex_digit (unat b mod 16)]) bs)"

definition BigToHex :: "int \<Rightarrow> string" where
  "BigToHex bigInt =
     (if BitLen bigInt = 0 then ''0x0''
      else ''0x'' @ TrimPrefix (fmt_x_bytes (Bytes bigInt)) ''0'')"

subsection \<open>ParseBigInt\<close>

text \<open>
  ParseBigInt is \<open>fmt.Sscan(value, &i)\<close> on a fresh \<open>big.Int\<close>. Sscan hands the input to
  \<open>big.Int.Scan\<close> with the verb \<open>v\<close>: leading space is skipped, a sign is read, and the
  magnitude is scanned with base 0, where a prefix chooses the base (\<open>0x\<close> 16, \<open>0b\<close> 2,
  \<open>0o\<close> 8, a bare leading \<open>0\<close> 8, otherwise 10), an underscore may separate digits, and the
  scan stops in front of the first byte that is no digit of the base. Input after the
  number is left unread and is no error. The model reads an input of any length: the
  bound package fmt puts on the count of runes one operand may take (\<open>hugeWid\<close>, 2 to
  the power 30) is not modelled.

  The scanner reads runes. \<open>utf8.DecodeRune\<close> gives the rune at the head of the input
  and the count of bytes it takes: a byte below 128 is itself, a well-formed sequence of
  two to four bytes is its code point, and anything else is \<open>U+FFFD\<close> of width 1. The
  table \<open>first\<close> gives, for a leading byte, the length of the sequence and the range the
  second byte must be in.
\<close>

definition RuneError :: nat where
  "RuneError = 0xFFFD"

definition first :: "nat \<Rightarrow> (nat \<times> nat \<times> nat) option" where
  "first p0 =
     (if 0xC2 \<le> p0 \<and> p0 \<le> 0xDF then Some (2, 0x80, 0xBF)
      else if p0 = 0xE0 then Some (3, 0xA0, 0xBF)
      else if p0 = 0xED then Some (3, 0x80, 0x9F)
      else if 0xE1 \<le> p0 \<and> p0 \<le> 0xEF then Some (3, 0x80, 0xBF)
      else if p0 = 0xF0 then Some (4, 0x90, 0xBF)
      else if 0xF1 \<le> p0 \<and> p0 \<le> 0xF3 then Some (4, 0x80, 0xBF)
      else if p0 = 0xF4 then Some (4, 0x80, 0x8F)
      else None)"

definition continuation :: "nat \<Rightarrow> bool" where
  "continuation b = (0x80 \<le> b \<and> b \<le> 0xBF)"

definition DecodeRune :: "string \<Rightarrow> nat \<times> nat" where
  "DecodeRune p =
     (case map of_char p of
        [] \<Rightarrow> (RuneError, 0)
      | p0 # ps \<Rightarrow>
          if p0 < 0x80 then (p0, 1)
          else
            (case first p0 of
               None \<Rightarrow> (RuneError, 1)
             | Some (sz, lo, hi) \<Rightarrow>
                 if length p < sz then (RuneError, 1)
                 else if ps ! 0 < lo \<or> hi < ps ! 0 then (RuneError, 1)
                 else if sz \<le> 2 then (p0 mod 32 * 64 + ps ! 0 mod 64, 2)
                 else if \<not> continuation (ps ! 1) then (RuneError, 1)
                 else if sz \<le> 3 then
                   (p0 mod 16 * 4096 + ps ! 0 mod 64 * 64 + ps ! 1 mod 64, 3)
                 else if \<not> continuation (ps ! 2) then (RuneError, 1)
                 else (p0 mod 8 * 262144 + ps ! 0 mod 64 * 4096 + ps ! 1 mod 64 * 64
                         + ps ! 2 mod 64, 4)))"

text \<open>
  The space of package fmt, and \<open>SkipSpace\<close> for Sscan, where a newline counts as
  space: runes are read while they are space, and the first other rune is put back.
\<close>

definition isSpace :: "nat \<Rightarrow> bool" where
  "isSpace r =
     ((0x09 \<le> r \<and> r \<le> 0x0D) \<or> r = 0x20 \<or> r = 0x85 \<or> r = 0xA0 \<or> r = 0x1680 \<or>
      (0x2000 \<le> r \<and> r \<le> 0x200A) \<or> r = 0x2028 \<or> r = 0x2029 \<or> r = 0x202F \<or>
      r = 0x205F \<or> r = 0x3000)"

fun SkipSpace :: "string \<Rightarrow> string" where
  "SkipSpace [] = []"
| "SkipSpace (c # cs) =
     (if isSpace (fst (DecodeRune (c # cs)))
      then SkipSpace (drop (snd (DecodeRune (c # cs)) - 1) cs)
      else c # cs)"

text \<open>
  The digits are read through the byte reader of math/big, which reads a rune and
  refuses one that is wider than a byte. A byte from 128 on that starts no well-formed
  sequence is read as \<open>U+FFFD\<close> of width 1, which the byte reader narrows to the byte
  \<open>0xFD\<close>: no digit and no separator, so the number ends in front of it without an
  error. A rune that has been put back is read again with the width of its encoding, 3
  for \<open>U+FFFD\<close>: that is the case of the first rune after the space, which \<open>SkipSpace\<close>
  has put back.
\<close>

record scan_state =
  acc :: nat          \<comment> \<open>the magnitude read so far\<close>
  digits_read :: nat  \<comment> \<open>the count of digits read\<close>
  prev_sep :: bool    \<comment> \<open>the previous byte was an underscore\<close>
  prev_digit :: bool  \<comment> \<open>the previous byte was a digit\<close>
  invalSep :: bool
  failed :: bool      \<comment> \<open>the reader returned an error other than end of input\<close>

text \<open>The loop of \<open>nat.scan\<close> for base argument 0 and actual base \<open>b\<close>.\<close>

fun scan_loop :: "nat \<Rightarrow> scan_state \<Rightarrow> string \<Rightarrow> scan_state" where
  "scan_loop b st [] = st"
| "scan_loop b st (ch # cs) =
     (if (of_char ch :: nat) \<ge> 128 then
        (if snd (DecodeRune (ch # cs)) = 1 then st else st\<lparr>failed := True\<rparr>)
      else if ch = CHR ''_'' then
        scan_loop b (st\<lparr>invalSep := invalSep st \<or> \<not> prev_digit st,
                         prev_sep := True, prev_digit := False\<rparr>) cs
      else
        (case digit_val ch of
           None \<Rightarrow> st
         | Some d1 \<Rightarrow>
             if d1 \<ge> b then st
             else scan_loop b (st\<lparr>acc := acc st * b + d1,
                                   digits_read := Suc (digits_read st),
                                   prev_sep := False, prev_digit := True\<rparr>) cs))"

text \<open>
  \<open>nat.scan\<close> with base 0 and no fraction: the prefix, the loop, and the checks after
  it. The result is the magnitude and the error.
\<close>

definition nat_scan :: "string \<Rightarrow> nat \<times> error option" where
  "nat_scan s =
     (let st0 = \<lparr>acc = 0, digits_read = 0, prev_sep = False, prev_digit = False,
                 invalSep = False, failed = False\<rparr>;
          zero_seen = st0\<lparr>digits_read := 1, prev_digit := True\<rparr>;
          after_prefix = zero_seen\<lparr>digits_read := 0\<rparr>;
          (b, octal, st, rest) =
            (case s of
               c0 # c1 # cs \<Rightarrow>
                 if c0 = CHR ''0'' then
                   (if c1 = CHR ''b'' \<or> c1 = CHR ''B'' then (2, False, after_prefix, cs)
                    else if c1 = CHR ''o'' \<or> c1 = CHR ''O'' then (8, False, after_prefix, cs)
                    else if c1 = CHR ''x'' \<or> c1 = CHR ''X'' then (16, False, after_prefix, cs)
                    else (8, True, after_prefix, c1 # cs))
                 else (10, False, st0, s)
             | [c0] \<Rightarrow> if c0 = CHR ''0'' then (10, False, zero_seen, []) else (10, False, st0, s)
             | [] \<Rightarrow> (10, False, st0, []));
          st' = scan_loop b st rest;
          err = (if failed st' then Some ErrInvalidRune
                 else if invalSep st' \<or> prev_sep st' then Some ErrSeparator else None)
      in if digits_read st' = 0 then
           (if octal then (0, err) else (acc st', Some ErrNoDigits))
         else (acc st', err))"

text \<open>
  \<open>big.Int.scan\<close>: the sign, then the magnitude. On an error the magnitude read so far
  has been stored and the sign has not.
\<close>

definition Int_scan :: "string \<Rightarrow> int \<times> error option" where
  "Int_scan s =
     (case s of
        [] \<Rightarrow> (0, Some ErrUnexpectedEOF)
      | c # cs \<Rightarrow>
          if (of_char c :: nat) \<ge> 128 then (0, Some ErrInvalidRune)
          else
            let neg = (c = CHR ''-'');
                rest = (if c = CHR ''-'' \<or> c = CHR ''+'' then cs else s);
                (m, err) = nat_scan rest
            in (case err of
                  Some e \<Rightarrow> (int m, Some e)
                | None \<Rightarrow> (if neg then - int m else int m, None)))"

definition ParseBigInt :: "string \<Rightarrow> int \<times> error option" where
  "ParseBigInt v = Int_scan (SkipSpace v)"

text \<open>\<open>strconv.Itoa\<close>: the decimal text of an integer, as encoding/json prints a Go int.\<close>

fun dec_nat :: "nat \<Rightarrow> string" where
  "dec_nat n = (if n < 10 then [hex_digit n] else dec_nat (n div 10) @ [hex_digit (n mod 10)])"

declare dec_nat.simps [simp del]

definition Itoa :: "int \<Rightarrow> string" where
  "Itoa i = (if i < 0 then CHR ''-'' # dec_nat (nat (- i)) else dec_nat (nat i))"

section \<open>JSON values and encoding/json\<close>

text \<open>
  The client hands Go values to \<open>json.Marshal\<close> and response bytes to
  \<open>json.Unmarshal\<close>. Both belong to the Go library; they are modelled on the tree of the
  JSON text. A number keeps its literal, since encoding/json converts it only once the
  target type is known. A string holds its content; strings on the wire are taken to be
  written without escape sequences, so that the text of a string value is its content
  between two quotes. The members of an object are kept in the order of the text,
  duplicates included.
\<close>

datatype json =
    JNull
  | JBool bool
  | JNumber string
  | JString string
  | JArray "json list"
  | JObject "(string \<times> json) list"

text \<open>A response body: JSON text, as its tree, or bytes that are not JSON text.\<close>

datatype wire = Json json | NotJson string

text \<open>
  A parameter passed as \<open>interface{}\<close> is modelled by what \<open>json.Marshal\<close> makes of it:
  its JSON value, or nothing when the value cannot be encoded.
\<close>

type_synonym param = "json option"

subsection \<open>Matching object keys with struct fields\<close>

text \<open>
  encoding/json takes the field whose name is the key, and otherwise the field whose name
  equals the key under case folding. All field names here are ASCII and no two of them
  fold to the same name, so a key selects a field exactly when both fold to the same
  bytes. Folding maps ASCII letters to upper case, and the Kelvin sign (bytes E2 84 AA)
  and the long s (bytes C5 BF) to \<open>K\<close> and \<open>S\<close>.
\<close>

definition toUpper :: "char \<Rightarrow> char" where
  "toUpper c =
     (let k = (of_char c :: nat) in if 97 \<le> k \<and> k \<le> 122 then char_of (k - 32) else c)"

fun foldName :: "string \<Rightarrow> string" where
  "foldName (a # b # c # cs) =
     (if a = CHR 0xE2 \<and> b = CHR 0x84 \<and> c = CHR 0xAA then CHR ''K'' # foldName cs
      else if a = CHR 0xC5 \<and> b = CHR 0xBF then CHR ''S'' # foldName (c # cs)
      else toUpper a # foldName (b # c # cs))"
| "foldName [a, b] =
     (if a = CHR 0xC5 \<and> b = CHR 0xBF then [CHR ''S''] else toUpper a # foldName [b])"
| "foldName [a] = [toUpper a]"
| "foldName [] = []"

definition is_field :: "string \<Rightarrow> string \<Rightarrow> bool" where
  "is_field name key = (foldName key = foldName name)"

subsection \<open>Decoding into Go values\<close>

text \<open>
  Each decoder takes the JSON value and the current content of the Go variable. A JSON
  \<open>null\<close> leaves an int or a string as it is. A value of the wrong kind is an
  \<open>UnmarshalTypeError\<close>; the client drops the decoded value whenever \<open>Unmarshal\<close> returns
  an error, so a decoder stops at the first one.
\<close>

definition unmarshal_int :: "json \<Rightarrow> int \<Rightarrow> error + int" where
  "unmarshal_int v cur =
     (case v of
        JNull \<Rightarrow> Inr cur
      | JNumber lit \<Rightarrow>
          (case strconv_ParseInt lit 10 of
             Inl _ \<Rightarrow> Inl UnmarshalTypeError
           | Inr n \<Rightarrow> Inr n)
      | _ \<Rightarrow> Inl UnmarshalTypeError)"

definition unmarshal_string :: "json \<Rightarrow> string \<Rightarrow> error + string" where
  "unmarshal_string v cur =
     (case v of
        JNull \<Rightarrow> Inr cur
      | JString s \<Rightarrow> Inr s
      | _ \<Rightarrow> Inl UnmarshalTypeError)"

text \<open>\<open>RpcError\<close>: \<open>code\<close> and \<open>message\<close>.\<close>

fun unmarshal_RpcError_fields :: "(string \<times> json) list \<Rightarrow> RpcError \<Rightarrow> error + RpcError" where
  "unmarshal_RpcError_fields [] e = Inr e"
| "unmarshal_RpcError_fields ((k, v) # kvs) e =
     (if is_field ''code'' k then
        (case unmarshal_int v (Code e) of
           Inl x \<Rightarrow> Inl x
         | Inr n \<Rightarrow> unmarshal_RpcError_fields kvs (e\<lparr>Code := n\<rparr>))
      else if is_field ''message'' k then
        (case unmarshal_string v (Message e) of
           Inl x \<Rightarrow> Inl x
         | Inr m \<Rightarrow> unmarshal_RpcError_fields kvs (e\<lparr>Message := m\<rparr>))
      else unmarshal_RpcError_fields kvs e)"

text \<open>
  A field of type \<open>*RpcError\<close>: \<open>null\<close> sets the pointer to nil, an object is decoded
  into the struct the pointer has, or into a fresh one.
\<close>

definition unmarshal_RpcError_ptr :: "json \<Rightarrow> RpcError option \<Rightarrow> error + RpcError option" where
  "unmarshal_RpcError_ptr v cur =
     (case v of
        JNull \<Rightarrow> Inr None
      | JObject kvs \<Rightarrow>
          (case unmarshal_RpcError_fields kvs
                  (case cur of None \<Rightarrow> \<lparr>Code = 0, Message = []\<rparr> | Some e \<Rightarrow> e) of
             Inl x \<Rightarrow> Inl x
           | Inr e \<Rightarrow> Inr (Some e))
      | _ \<Rightarrow> Inl UnmarshalTypeError)"

text \<open>
  \<open>rpcResponse\<close>. \<open>Result\<close> is a \<open>json.RawMessage\<close>: the text of the value, \<open>null\<close>
  included, and nil when the key is absent.
\<close>

record rpcResponse =
  ID :: int
  JSONRPC :: string
  Result :: "json option"
  Error :: "RpcError option"

fun unmarshal_rpcResponse_fields ::
  "(string \<times> json) list \<Rightarrow> rpcResponse \<Rightarrow> error + rpcResponse" where
  "unmarshal_rpcResponse_fields [] r = Inr r"
| "unmarshal_rpcResponse_fields ((k, v) # kvs) r =
     (if is_field ''id'' k then
        (case unmarshal_int v (ID r) of
           Inl x \<Rightarrow> Inl x
         | Inr n \<Rightarrow> unmarshal_rpcResponse_fields kvs (r\<lparr>ID := n\<rparr>))
      else if is_field ''jsonrpc'' k then
        (case unmarshal_string v (JSONRPC r) of
           Inl x \<Rightarrow> Inl x
         | Inr s \<Rightarrow> unmarshal_rpcResponse_fields kvs (r\<lparr>JSONRPC := s\<rparr>))
      else if is_field ''result'' k then
        unmarshal_rpcResponse_fields kvs (r\<lparr>Result := Some v\<rparr>)
      else if is_field ''error'' k then
        (case unmarshal_RpcError_ptr v (Error r) of
           Inl x \<Rightarrow> Inl x
         | Inr e \<Rightarrow> unmarshal_rpcResponse_fields kvs (r\<lparr>Error := e\<rparr>))
      else unmarshal_rpcResponse_fields kvs r)"

text \<open>
  \<open>json.Unmarshal(data, resp)\<close> for a fresh \<open>rpcResponse\<close>: text that is not JSON is a
  syntax error, \<open>null\<close> leaves the struct as it is, an object is decoded member by
  member, anything else does not fit a struct.
\<close>

definition unmarshal_rpcResponse :: "wire \<Rightarrow> error + rpcResponse" where
  "unmarshal_rpcResponse data =
     (case data of
        NotJson _ \<Rightarrow> Inl SyntaxError
      | Json JNull \<Rightarrow> Inr \<lparr>ID = 0, JSONRPC = [], Result = None, Error = None\<rparr>
      | Json (JObject kvs) \<Rightarrow>
          unmarshal_rpcResponse_fields kvs \<lparr>ID = 0, JSONRPC = [], Result = None, Error = None\<rparr>
      | Json _ \<Rightarrow> Inl UnmarshalTypeError)"

text \<open>\<open>RelayErrorResponse\<close>: the flat shape with one string field \<open>error\<close>.\<close>

record RelayErrorResponse =
  Error :: string

fun unmarshal_RelayErrorResponse_fields ::
  "(string \<times> json) list \<Rightarrow> RelayErrorResponse \<Rightarrow> error + RelayErrorResponse" where
  "unmarshal_RelayErrorResponse_fields [] r = Inr r"
| "unmarshal_RelayErrorResponse_fields ((k, v) # kvs) r =
     (if is_field ''error'' k then
        (case unmarshal_string v (RelayErrorResponse.Error r) of
           Inl x \<Rightarrow> Inl x
         | Inr s \<Rightarrow>
             unmarshal_RelayErrorResponse_fields kvs (r\<lparr>RelayErrorResponse.Error := s\<rparr>))
      else unmarshal_RelayErrorResponse_fields kvs r)"

definition unmarshal_RelayErrorResponse :: "wire \<Rightarrow> error + RelayErrorResponse" where
  "unmarshal_RelayErrorResponse data =
     (case data of
        NotJson _ \<Rightarrow> Inl SyntaxError
      | Json JNull \<Rightarrow> Inr \<lparr>RelayErrorResponse.Error = []\<rparr>
      | Json (JObject kvs) \<Rightarrow>
          unmarshal_RelayErrorResponse_fields kvs \<lparr>RelayErrorResponse.Error = []\<rparr>
      | Json _ \<Rightarrow> Inl UnmarshalTypeError)"

section \<open>RPC transport (flashxroute.go)\<close>

subsection \<open>The client, the request and the world outside\<close>

text \<open>
  \<open>rpcRequest\<close>: \<open>Params\<close> has type \<open>interface{}\<close> and holds one parameter.
\<close>

record rpcRequest =
  ID :: int
  JSONRPC :: string
  Method :: string
  Params :: param

text \<open>
  \<open>json.Marshal(request)\<close>: the members in the order of the struct fields, under the
  names of their tags. It fails exactly when the parameter cannot be encoded.
\<close>

definition marshal_rpcRequest :: "rpcRequest \<Rightarrow> json option" where
  "marshal_rpcRequest r =
     (case Params r of
        None \<Rightarrow> None
      | Some p \<Rightarrow>
          Some (JObject [(''id'', JNumber (Itoa (rpcRequest.ID r))),
                         (''jsonrpc'', JString (rpcRequest.JSONRPC r)),
                         (''method'', JString (Method r)),
                         (''params'', p)]))"

text \<open>
  The request handed to \<open>http.Client.Do\<close>. \<open>req_header\<close> lists the calls of
  \<open>Header.Add\<close> in order.
\<close>

record http_request =
  req_method :: string
  req_url :: string
  req_header :: "(string \<times> string) list"
  req_body :: json

text \<open>
  What \<open>Do\<close> followed by \<open>ioutil.ReadAll\<close> gives: an error of either, or the bytes of
  the body.
\<close>

datatype http_result = DoFailed string | ReadAllFailed string | Body wire

text \<open>
  The \<open>httpClient\<close> interface has one method, \<open>Post(url, contentType, body)\<close>.
\<close>

type_synonym httpClient = "string \<Rightarrow> string \<Rightarrow> json \<Rightarrow> http_result"

text \<open>
  \<open>FlashXRoute\<close>. The logger is known by its identity only. \<open>Headers\<close> is a Go map; it
  is given as its entries in the order the \<open>range\<close> statement visits them. \<open>Timeout\<close>
  is a \<open>time.Duration\<close>, in nanoseconds.
\<close>

record 'l FlashXRoute =
  url :: string
  client :: httpClient
  log :: 'l
  Debug :: bool
  Headers :: "(string \<times> string) list"
  Timeout :: int

text \<open>
  The library and the network, as far as the client depends on them: whether
  \<open>http.NewRequest\<close> accepts the method and URL, and what a fresh \<open>http.Client\<close> with
  the given timeout answers to a request.
\<close>

record env =
  NewRequest_ok :: "string \<Rightarrow> string \<Rightarrow> bool"
  Do :: "http_request \<Rightarrow> int \<Rightarrow> http_result"

text \<open>
  What a call does besides returning: the request it sends, the line it logs, and the
  decoding of the response body it attempts, by target type.
\<close>

datatype target = IntoRelayErrorResponse | IntoRpcResponse | IntoSyncing

datatype 'l event =
    HttpDo http_request int
  | LogCall 'l string json wire               \<comment> \<open>method, request body, response\<close>
  | LogAuthCall 'l string json string wire    \<comment> \<open>method, request body, auth header, response\<close>
  | Unmarshal target

type_synonym ('l, 'a) run = "'l event list \<times> 'a outcome"

subsection \<open>New and its options\<close>

definition WithHttpClient :: "httpClient \<Rightarrow> 'l FlashXRoute \<Rightarrow> 'l FlashXRoute" where
  "WithHttpClient c rpc = rpc\<lparr>client := c\<rparr>"

definition WithLogger :: "'l \<Rightarrow> 'l FlashXRoute \<Rightarrow> 'l FlashXRoute" where
  "WithLogger l rpc = rpc\<lparr>log := l\<rparr>"

definition WithDebug :: "bool \<Rightarrow> 'l FlashXRoute \<Rightarrow> 'l FlashXRoute" where
  "WithDebug enabled rpc = rpc\<lparr>Debug := enabled\<rparr>"

text \<open>
  \<open>New\<close>, with \<open>http.DefaultClient\<close> and the logger on standard error as arguments.
\<close>

definition New ::
  "httpClient \<Rightarrow> 'l \<Rightarrow> string \<Rightarrow> ('l FlashXRoute \<Rightarrow> 'l FlashXRoute) list \<Rightarrow> 'l FlashXRoute" where
  "New DefaultClient stderr_logger u options =
     fold (\<lambda>option rpc. option rpc) options
       \<lparr>url = u, client = DefaultClient, log = stderr_logger, Debug = False,
        Headers = [], Timeout = 30 * 1000000000\<rparr>"

subsection \<open>Call\<close>

text \<open>
  The request both calls build once \<open>http.NewRequest\<close> has accepted the URL: a POST
  of the body to the URL of the client, with the two content headers, the headers the
  call adds itself (\<open>own\<close>), and then the headers of the client.
\<close>

definition POST_request ::
  "'l FlashXRoute \<Rightarrow> (string \<times> string) list \<Rightarrow> json \<Rightarrow> http_request" where
  "POST_request rpc own body =
     \<lparr>req_method = ''POST'', req_url = url rpc,
      req_header = [(''Content-Type'', ''application/json''), (''Accept'', ''application/json'')]
                   @ own @ Headers rpc,
      req_body = body\<rparr>"

definition Call ::
  "'l FlashXRoute \<Rightarrow> env \<Rightarrow> string \<Rightarrow> param list \<Rightarrow> ('l, json option) run" where
  "Call rpc env method params =
     (case params of
        [] \<Rightarrow> ([], Panic IndexOutOfRange)
      | p0 # _ \<Rightarrow>
          (case marshal_rpcRequest
                  \<lparr>ID = 1, JSONRPC = ''2.0'', Method = method, Params = p0\<rparr> of
             None \<Rightarrow> ([], Err MarshalError)
           | Some body \<Rightarrow>
               if \<not> NewRequest_ok env ''POST'' (url rpc) then ([], Err NewRequestError)
               else
                 let req = POST_request rpc [] body;
                     sent = [HttpDo req (Timeout rpc)]
                 in (case Do env req (Timeout rpc) of
                       DoFailed e \<Rightarrow> (sent, Err (TransportError e))
                     | ReadAllFailed e \<Rightarrow> (sent, Err (TransportError e))
                     | Body data \<Rightarrow>
                         let tr = sent
                                  @ (if Debug rpc then [LogCall (log rpc) method body data] else [])
                                  @ [Unmarshal IntoRpcResponse]
                         in (case unmarshal_rpcResponse data of
                               Inl e \<Rightarrow> (tr, Err e)
                             | Inr resp \<Rightarrow>
                                 (case rpcResponse.Error resp of
                                    Some e \<Rightarrow> (tr, Err (ProtocolError e))
                                  | None \<Rightarrow> (tr, Ok (Result resp)))))))"

subsection \<open>CallWithBloxrouteAuthHeader\<close>

definition CallWithBloxrouteAuthHeader ::
  "'l FlashXRoute \<Rightarrow> env \<Rightarrow> string \<Rightarrow> string \<Rightarrow> param list \<Rightarrow> ('l, json option) run" where
  "CallWithBloxrouteAuthHeader rpc env method authHeader params =
     (case params of
        [] \<Rightarrow> ([], Panic IndexOutOfRange)
      | p0 # _ \<Rightarrow>
          (case marshal_rpcRequest
                  \<lparr>ID = 1, JSONRPC = ''2.0'', Method = method, Params = p0\<rparr> of
             None \<Rightarrow> ([], Err MarshalError)
           | Some body \<Rightarrow>
               if \<not> NewRequest_ok env ''POST'' (url rpc) then ([], Err NewRequestError)
               else
                 let req = POST_request rpc [(''Authorization'', authHeader)] body;
                     sent = [HttpDo req (Timeout rpc)]
                 in (case Do env req (Timeout rpc) of
                       DoFailed e \<Rightarrow> (sent, Err (TransportError e))
                     | ReadAllFailed e \<Rightarrow> (sent, Err (TransportError e))
                     | Body data \<Rightarrow>
                         let tr1 = sent
                                   @ (if Debug rpc
                                      then [LogAuthCall (log rpc) method body authHeader data]
                                      else [])
                                   @ [Unmarshal IntoRelayErrorResponse];
                             tr2 = tr1 @ [Unmarshal IntoRpcResponse];
                             envelope =
                               (case unmarshal_rpcResponse data of
                                  Inl e \<Rightarrow> (tr2, Err e)
                                | Inr resp \<Rightarrow>
                                    (case rpcResponse.Error resp of
                                       Some e \<Rightarrow> (tr2, Err (RelayError (Message e)))
                                     | None \<Rightarrow> (tr2, Ok (Result resp))))
                         in (case unmarshal_RelayErrorResponse data of
                               Inl _ \<Rightarrow> envelope
                             | Inr errorResp \<Rightarrow>
                                 if RelayErrorResponse.Error errorResp \<noteq> []
                                 then (tr1, Err (RelayError (RelayErrorResponse.Error errorResp)))
                                 else envelope))))"

subsection \<open>RawCall, call and the wrappers without parameters\<close>

definition RawCall ::
  "'l FlashXRoute \<Rightarrow> env \<Rightarrow> string \<Rightarrow> param list \<Rightarrow> ('l, json option) run" where
  "RawCall rpc env method params = Call rpc env method params"

text \<open>
  \<open>call\<close> decodes the result into \<open>target\<close>, unless the target is nil. The target is
  given as the decoder of its type, which starts from the content the variable has. A
  result without bytes is no JSON text.
\<close>

definition call ::
  "'l FlashXRoute \<Rightarrow> env \<Rightarrow> string \<Rightarrow> (json \<Rightarrow> error + 'a) option \<Rightarrow> param list
     \<Rightarrow> ('l, 'a option) run" where
  "call rpc env method target params =
     (case Call rpc env method params of
        (tr, Panic p) \<Rightarrow> (tr, Panic p)
      | (tr, Err e) \<Rightarrow> (tr, Err e)
      | (tr, Ok result) \<Rightarrow>
          (case target of
             None \<Rightarrow> (tr, Ok None)
           | Some decode \<Rightarrow>
               (case result of
                  None \<Rightarrow> (tr, Err SyntaxError)
                | Some v \<Rightarrow>
                    (case decode v of
                       Inl e \<Rightarrow> (tr, Err e)
                     | Inr x \<Rightarrow> (tr, Ok (Some x))))))"

text \<open>
  The wrappers return the variable together with the error; the variable is what the
  decoder left in it, and only the error is kept here when there is one.
\<close>

definition Web3ClientVersion :: "'l FlashXRoute \<Rightarrow> env \<Rightarrow> ('l, string) run" where
  "Web3ClientVersion rpc env =
     (case call rpc env ''web3_clientVersion'' (Some (\<lambda>v. unmarshal_string v [])) [] of
        (tr, Panic p) \<Rightarrow> (tr, Panic p)
      | (tr, Err e) \<Rightarrow> (tr, Err e)
      | (tr, Ok None) \<Rightarrow> (tr, Ok [])
      | (tr, Ok (Some clientVersion)) \<Rightarrow> (tr, Ok clientVersion))"

definition NetVersion :: "'l FlashXRoute \<Rightarrow> env \<Rightarrow> ('l, string) run" where
  "NetVersion rpc env =
     (case call rpc env ''net_version'' (Some (\<lambda>v. unmarshal_string v [])) [] of
        (tr, Panic p) \<Rightarrow> (tr, Panic p)
      | (tr, Err e) \<Rightarrow> (tr, Err e)
      | (tr, Ok None) \<Rightarrow> (tr, Ok [])
      | (tr, Ok (Some version)) \<Rightarrow> (tr, Ok version))"

subsection \<open>EthSyncing\<close>

record Syncing =
  IsSyncing :: bool
  StartingBlock :: int
  CurrentBlock :: int
  HighestBlock :: int

text \<open>
  \<open>proxySyncing\<close> has the fields of \<open>Syncing\<close> with \<open>hexInt\<close> in place of \<open>int\<close>;
  \<open>IsSyncing\<close> is hidden from JSON by its tag.
\<close>

record proxySyncing =
  IsSyncing :: bool
  StartingBlock :: int
  CurrentBlock :: int
  HighestBlock :: int

text \<open>\<open>bytes.Trim(data, cutset)\<close> for a cutset of one byte.\<close>

definition Trim :: "string \<Rightarrow> char \<Rightarrow> string" where
  "Trim s q = rev (dropWhile (\<lambda>c. c = q) (rev (dropWhile (\<lambda>c. c = q) s)))"

text \<open>
  The text of a JSON value that is no array and no object, as the decoder hands it to an
  \<open>UnmarshalJSON\<close> method.
\<close>

definition scalar_text :: "json \<Rightarrow> string" where
  "scalar_text v =
     (case v of
        JNull \<Rightarrow> ''null''
      | JBool b \<Rightarrow> (if b then ''true'' else ''false'')
      | JNumber lit \<Rightarrow> lit
      | JString s \<Rightarrow> [CHR 0x22] @ s @ [CHR 0x22]
      | _ \<Rightarrow> [])"

text \<open>
  \<open>hexInt.UnmarshalJSON\<close>: ParseInt of the text without the quotes around it. The
  decoder calls it for every JSON value, \<open>null\<close> included. The text of an array or an
  object starts with a bracket, which strconv refuses at the first byte.
\<close>

definition hexInt_UnmarshalJSON :: "json \<Rightarrow> error + int" where
  "hexInt_UnmarshalJSON v =
     (case v of
        JArray _ \<Rightarrow> Inl ErrSyntax
      | JObject _ \<Rightarrow> Inl ErrSyntax
      | _ \<Rightarrow> ParseInt (Trim (scalar_text v) (CHR 0x22)))"

fun unmarshal_proxySyncing_fields ::
  "(string \<times> json) list \<Rightarrow> proxySyncing \<Rightarrow> error + proxySyncing" where
  "unmarshal_proxySyncing_fields [] r = Inr r"
| "unmarshal_proxySyncing_fields ((k, v) # kvs) r =
     (if is_field ''startingBlock'' k then
        (case hexInt_UnmarshalJSON v of
           Inl x \<Rightarrow> Inl x
         | Inr n \<Rightarrow> unmarshal_proxySyncing_fields kvs (r\<lparr>proxySyncing.StartingBlock := n\<rparr>))
      else if is_field ''currentBlock'' k then
        (case hexInt_UnmarshalJSON v of
           Inl x \<Rightarrow> Inl x
         | Inr n \<Rightarrow> unmarshal_proxySyncing_fields kvs (r\<lparr>proxySyncing.CurrentBlock := n\<rparr>))
      else if is_field ''highestBlock'' k then
        (case hexInt_UnmarshalJSON v of
           Inl x \<Rightarrow> Inl x
         | Inr n \<Rightarrow> unmarshal_proxySyncing_fields kvs (r\<lparr>proxySyncing.HighestBlock := n\<rparr>))
      else unmarshal_proxySyncing_fields kvs r)"

definition unmarshal_proxySyncing :: "json \<Rightarrow> error + proxySyncing" where
  "unmarshal_proxySyncing v =
     (let zero = \<lparr>proxySyncing.IsSyncing = False, proxySyncing.StartingBlock = 0,
                  proxySyncing.CurrentBlock = 0, proxySyncing.HighestBlock = 0\<rparr>
      in case v of
           JNull \<Rightarrow> Inr zero
         | JObject kvs \<Rightarrow> unmarshal_proxySyncing_fields kvs zero
         | _ \<Rightarrow> Inl UnmarshalTypeError)"

text \<open>
  \<open>Syncing.UnmarshalJSON\<close>: decode the proxy, set \<open>IsSyncing\<close>, and read the proxy as
  a \<open>Syncing\<close> through \<open>unsafe.Pointer\<close>; the two structs have the same layout, so each
  field keeps its value.
\<close>

definition Syncing_UnmarshalJSON :: "json \<Rightarrow> error + Syncing" where
  "Syncing_UnmarshalJSON data =
     (case unmarshal_proxySyncing data of
        Inl e \<Rightarrow> Inl e
      | Inr proxy \<Rightarrow>
          let proxy' = proxy\<lparr>proxySyncing.IsSyncing := True\<rparr>
          in Inr \<lparr>Syncing.IsSyncing = proxySyncing.IsSyncing proxy',
                  Syncing.StartingBlock = proxySyncing.StartingBlock proxy',
                  Syncing.CurrentBlock = proxySyncing.CurrentBlock proxy',
                  Syncing.HighestBlock = proxySyncing.HighestBlock proxy'\<rparr>)"

text \<open>
  \<open>EthSyncing\<close> is \<open>RawCall\<close> without parameters, and then the lines after the call
  (\<open>EthSyncing_after\<close>): an error of the call is returned, the bytes \<open>false\<close> give a
  fresh \<open>Syncing\<close>, and anything else is decoded into it.
\<close>

definition EthSyncing_after :: "('l, json option) run \<Rightarrow> ('l, Syncing) run" where
  "EthSyncing_after called =
     (case called of
        (tr, Panic p) \<Rightarrow> (tr, Panic p)
      | (tr, Err e) \<Rightarrow> (tr, Err e)
      | (tr, Ok result) \<Rightarrow>
          if result = Some (JBool False)
          then (tr, Ok \<lparr>Syncing.IsSyncing = False, Syncing.StartingBlock = 0,
                       Syncing.CurrentBlock = 0, Syncing.HighestBlock = 0\<rparr>)
          else
            (case result of
               None \<Rightarrow> (tr @ [Unmarshal IntoSyncing], Err SyntaxError)
             | Some v \<Rightarrow>
                 (case Syncing_UnmarshalJSON v of
                    Inl e \<Rightarrow> (tr @ [Unmarshal IntoSyncing], Err e)
                  | Inr syncing \<Rightarrow> (tr @ [Unmarshal IntoSyncing], Ok syncing))))"

definition EthSyncing :: "'l FlashXRoute \<Rightarrow> env \<Rightarrow> ('l, Syncing) run" where
  "EthSyncing rpc env = EthSyncing_after (RawCall rpc env ''eth_syncing'' [])"

section \<open>Blocks without transaction objects\<close>

text \<open>
  \<open>Transaction\<close> and \<open>Block\<close>. A \<open>*int\<close> is an optional integer, a \<open>big.Int\<close> an
  integer, a slice a list.
\<close>

record Transaction =
  Hash :: string
  Nonce :: int
  BlockHash :: string
  BlockNumber :: "int option"
  TransactionIndex :: "int option"
  From :: string
  To :: string
  Value :: int
  Gas :: int
  GasPrice :: int
  Input :: string

record Block =
  Number :: int
  Hash :: string
  ParentHash :: string
  Nonce :: string
  Sha3Uncles :: string
  LogsBloom :: string
  TransactionsRoot :: string
  StateRoot :: string
  Miner :: string
  Difficulty :: int
  TotalDifficulty :: int
  ExtraData :: string
  Size :: int
  GasLimit :: int
  GasUsed :: int
  Timestamp :: int
  Uncles :: "string list"
  Transactions :: "Transaction list"

record proxyBlockWithoutTransactions =
  Number :: int
  Hash :: string
  ParentHash :: string
  Nonce :: string
  Sha3Uncles :: string
  LogsBloom :: string
  TransactionsRoot :: string
  StateRoot :: string
  Miner :: string
  Difficulty :: int
  TotalDifficulty :: int
  ExtraData :: string
  Size :: int
  GasLimit :: int
  GasUsed :: int
  Timestamp :: int
  Uncles :: "string list"
  Transactions :: "string list"

text \<open>The zero value of \<open>Transaction\<close>, and the literal \<open>Transaction{Hash: h}\<close>.\<close>

definition zero_Transaction :: Transaction where
  "zero_Transaction =
     \<lparr>Transaction.Hash = [], Transaction.Nonce = 0, BlockHash = [], BlockNumber = None,
      TransactionIndex = None, From = [], To = [], Value = 0, Gas = 0, GasPrice = 0,
      Input = []\<rparr>"

definition Transaction_with_Hash :: "string \<Rightarrow> Transaction" where
  "Transaction_with_Hash h = zero_Transaction\<lparr>Transaction.Hash := h\<rparr>"

text \<open>
  The loop \<open>for i := range proxy.Transactions\<close> of \<open>toBlock\<close>, from index \<open>i\<close> on, over
  the slice \<open>ts\<close> that \<open>make\<close> has allocated. An assignment to an index outside the
  slice panics.
\<close>

function toBlock_loop :: "string list \<Rightarrow> nat \<Rightarrow> Transaction list \<Rightarrow> Transaction list outcome" where
  "toBlock_loop hs i ts =
     (if i < length hs then
        (if i < length ts then toBlock_loop hs (Suc i) (ts[i := Transaction_with_Hash (hs ! i)])
         else Panic IndexOutOfRange)
      else Ok ts)"
  by pat_completeness auto
termination
  by (relation "measure (\<lambda>(hs, i, ts). length hs - i)") auto

declare toBlock_loop.simps [simp del]

definition toBlock :: "proxyBlockWithoutTransactions \<Rightarrow> Block outcome" where
  "toBlock proxy =
     (let block =
            \<lparr>Block.Number = proxyBlockWithoutTransactions.Number proxy,
             Block.Hash = proxyBlockWithoutTransactions.Hash proxy,
             Block.ParentHash = proxyBlockWithoutTransactions.ParentHash proxy,
             Block.Nonce = proxyBlockWithoutTransactions.Nonce proxy,
             Block.Sha3Uncles = proxyBlockWithoutTransactions.Sha3Uncles proxy,
             Block.LogsBloom = proxyBlockWithoutTransactions.LogsBloom proxy,
             Block.TransactionsRoot = proxyBlockWithoutTransactions.TransactionsRoot proxy,
             Block.StateRoot = proxyBlockWithoutTransactions.StateRoot proxy,
             Block.Miner = proxyBlockWithoutTransactions.Miner proxy,
             Block.Difficulty = proxyBlockWithoutTransactions.Difficulty proxy,
             Block.TotalDifficulty = proxyBlockWithoutTransactions.TotalDifficulty proxy,
             Block.ExtraData = proxyBlockWithoutTransactions.ExtraData proxy,
             Block.Size = proxyBlockWithoutTransactions.Size proxy,
             Block.GasLimit = proxyBlockWithoutTransactions.GasLimit proxy,
             Block.GasUsed = proxyBlockWithoutTransactions.GasUsed proxy,
             Block.Timestamp = proxyBlockWithoutTransactions.Timestamp proxy,
             Block.Uncles = proxyBlockWithoutTransactions.Uncles proxy,
             Block.Transactions = []\<rparr>;
          hs = proxyBlockWithoutTransactions.Transactions proxy
      in case toBlock_loop hs 0 (replicate (length hs) zero_Transaction) of
           Ok ts \<Rightarrow> Ok (block\<lparr>Block.Transactions := ts\<rparr>)
         | Err e \<Rightarrow> Err e
         | Panic p \<Rightarrow> Panic p)"

section \<open>Block simulation transaction selector (flashxroute.go)\<close>

text \<open>
  The block and its transactions come from go-ethereum. A transaction is known here by
  what the selector asks of it: the sender that \<open>types.Sender\<close> recovers with the latest
  signer for the chain id of the transaction, if it recovers one; the recipient \<open>To()\<close>,
  nil for a contract creation; and the bytes \<open>EncodeRLP\<close> writes. An address is 20 bytes.
\<close>

type_synonym address = "160 word"

record types_Transaction =
  Sender :: "address option"
  To :: "address option"
  EncodeRLP :: "byte list"

record types_Block =
  Coinbase :: address
  Transactions :: "types_Transaction list"
  Number :: int
  ParentHash :: "byte list"

definition TxToRlp :: "types_Transaction \<Rightarrow> string" where
  "TxToRlp tx = fmt_x_bytes (EncodeRLP tx)"

text \<open>
  The lines that strip the beginning of the encoding. A slice expression beyond the
  length of the string panics.
\<close>

definition strip_rlp :: "string \<Rightarrow> string outcome" where
  "strip_rlp rlp =
     (if length rlp < 2 then Panic SliceBoundsOutOfRange
      else if take 2 rlp = ''b9'' then
        (if length rlp < 6 then Panic SliceBoundsOutOfRange else Ok (drop 6 rlp))
      else if take 2 rlp = ''b8'' then
        (if length rlp < 4 then Panic SliceBoundsOutOfRange else Ok (drop 4 rlp))
      else Ok rlp)"

text \<open>
  The loop over \<open>block.Transactions()\<close> with the slice \<open>txs\<close> collected so far. The
  lines printed under \<open>Debug\<close> are left out.
\<close>

fun select_loop ::
  "address \<Rightarrow> int \<Rightarrow> types_Transaction list \<Rightarrow> string list \<Rightarrow> string list outcome" where
  "select_loop coinbase maxTx [] txs = Ok txs"
| "select_loop coinbase maxTx (tx # rest) txs =
     (let txIsFromCoinbase = (case Sender tx of None \<Rightarrow> False | Some from \<Rightarrow> from = coinbase) in
      if txIsFromCoinbase then select_loop coinbase maxTx rest txs
      else
        let txIsToCoinbase =
              (case types_Transaction.To tx of None \<Rightarrow> False | Some to \<Rightarrow> to = coinbase) in
        if txIsToCoinbase then select_loop coinbase maxTx rest txs
        else
          (case strip_rlp (TxToRlp tx) of
             Panic p \<Rightarrow> Panic p
           | Err e \<Rightarrow> Err e
           | Ok rlp \<Rightarrow>
               let txs' = txs @ [''0x'' @ rlp] in
               if maxTx > 0 \<and> int (length txs') = maxTx then Ok txs'
               else select_loop coinbase maxTx rest txs'))"

definition select_txs :: "types_Block \<Rightarrow> int \<Rightarrow> string list outcome" where
  "select_txs block maxTx =
     select_loop (Coinbase block) maxTx (types_Block.Transactions block) []"

text \<open>\<open>BloxrouteSimulateBundleRequest\<close>; a nil slice is \<open>None\<close>.\<close>

record BloxrouteSimulateBundleRequest =
  Transaction :: "string list option"
  BlockNumber :: string
  StateBlockNumber :: string
  Timestamp :: int

text \<open>\<open>common.Hash.Hex\<close>: \<open>0x\<close> and two digits for each byte.\<close>

definition Hex :: "byte list \<Rightarrow> string" where
  "Hex h = ''0x'' @ fmt_x_bytes h"

text \<open>The request parameters \<open>BloxrouteSimulateBlock\<close> builds.\<close>

definition simulate_block_params :: "types_Block \<Rightarrow> int \<Rightarrow> BloxrouteSimulateBundleRequest outcome" where
  "simulate_block_params block maxTx =
     (case select_txs block maxTx of
        Panic p \<Rightarrow> Panic p
      | Err e \<Rightarrow> Err e
      | Ok txs \<Rightarrow>
          Ok \<lparr>Transaction = Some txs,
              BlockNumber = ''0x'' @ fmt_x_int (types_Block.Number block),
              StateBlockNumber = Hex (types_Block.ParentHash block),
              Timestamp = 0\<rparr>)"

text \<open>
  \<open>json.Marshal\<close> of the parameters: an empty \<open>state_block_number\<close> and a zero
  \<open>timestamp\<close> are omitted, a nil slice is \<open>null\<close>.
\<close>

definition marshal_BloxrouteSimulateBundleRequest :: "BloxrouteSimulateBundleRequest \<Rightarrow> json" where
  "marshal_BloxrouteSimulateBundleRequest r =
     JObject
       ([(''transaction'',
           (case Transaction r of None \<Rightarrow> JNull | Some txs \<Rightarrow> JArray (map JString txs))),
         (''block_number'', JString (BloxrouteSimulateBundleRequest.BlockNumber r))]
        @ (if StateBlockNumber r = [] then []
           else [(''state_block_number'', JString (StateBlockNumber r))])
        @ (if BloxrouteSimulateBundleRequest.Timestamp r = 0 then []
           else [(''timestamp'', JNumber (Itoa (BloxrouteSimulateBundleRequest.Timestamp r)))]))"

text \<open>
  \<open>BloxrouteSimulateBundle\<close> and \<open>BloxrouteSimulateBlock\<close>, up to the raw result of the
  call; decoding it into the response struct is not modelled.
\<close>

definition BloxrouteSimulateBundle_call ::
  "'l FlashXRoute \<Rightarrow> env \<Rightarrow> string \<Rightarrow> BloxrouteSimulateBundleRequest \<Rightarrow> ('l, json option) run" where
  "BloxrouteSimulateBundle_call rpc env authHeader params =
     CallWithBloxrouteAuthHeader rpc env ''blxr_simulate_bundle'' authHeader
       [Some (marshal_BloxrouteSimulateBundleRequest params)]"

definition BloxrouteSimulateBlock_call ::
  "'l FlashXRoute \<Rightarrow> env \<Rightarrow> string \<Rightarrow> types_Block \<Rightarrow> int \<Rightarrow> ('l, json option) run" where
  "BloxrouteSimulateBlock_call rpc env authHeader block maxTx =
     (case simulate_block_params block maxTx of
        Panic p \<Rightarrow> ([], Panic p)
      | Err e \<Rightarrow> ([], Err e)
      | Ok params \<Rightarrow> BloxrouteSimulateBundle_call rpc env authHeader params)"

section \<open>Notions used in the statements\<close>

text \<open>A string of lowercase hexadecimal digits, and its value read from an accumulator.\<close>

definition is_hex :: "string \<Rightarrow> bool" where
  "is_hex xs = (\<forall>c\<in>set xs. \<exists>d<16. c = hex_digit d)"

definition digits_value :: "nat \<Rightarrow> string \<Rightarrow> nat" where
  "digits_value a xs = foldl (\<lambda>a c. a * 16 + the (digit_val c)) a xs"

subsection \<open>The selector in the words of the specification\<close>

text \<open>
  A transaction is from the coinbase when its recovered sender is the coinbase, and to the
  coinbase when its declared recipient is. The selector keeps the transactions that are
  neither.
\<close>

definition from_coinbase :: "address \<Rightarrow> types_Transaction \<Rightarrow> bool" where
  "from_coinbase coinbase tx = (Sender tx = Some coinbase)"

definition to_coinbase :: "address \<Rightarrow> types_Transaction \<Rightarrow> bool" where
  "to_coinbase coinbase tx = (types_Transaction.To tx = Some coinbase)"

definition kept :: "address \<Rightarrow> types_Transaction \<Rightarrow> bool" where
  "kept coinbase tx = (\<not> from_coinbase coinbase tx \<and> \<not> to_coinbase coinbase tx)"

text \<open>
  The fixed-prefix rule: \<open>b9\<close> drops six characters, \<open>b8\<close> drops four, anything
  else is passed through. What is emitted is \<open>0x\<close> and the hex after the rule.
\<close>

definition spec_normalize :: "string \<Rightarrow> string" where
  "spec_normalize hex =
     (if take 2 hex = ''b9'' then drop 6 hex
      else if take 2 hex = ''b8'' then drop 4 hex
      else hex)"

definition spec_emit :: "types_Transaction \<Rightarrow> string" where
  "spec_emit tx = ''0x'' @ spec_normalize (TxToRlp tx)"

text \<open>The cap: the first \<open>maxTx\<close> when \<open>maxTx\<close> is positive, everything otherwise.\<close>

definition capped :: "int \<Rightarrow> 'a list \<Rightarrow> 'a list" where
  "capped maxTx xs = (if maxTx > 0 then take (nat maxTx) xs else xs)"

text \<open>
  An encoding is long enough for the slice expressions of the selector: two characters,
  and six or four when it starts with \<open>b9\<close> or \<open>b8\<close>. The RLP encoding of a
  transaction is: a first byte \<open>b8\<close> is followed by a length byte and at least 56
  bytes, a first byte \<open>b9\<close> by two length bytes and at least 256 bytes.
\<close>

definition sliceable :: "string \<Rightarrow> bool" where
  "sliceable rlp =
     (2 \<le> length rlp \<and> (if take 2 rlp = ''b9'' then 6 \<le> length rlp
                          else if take 2 rlp = ''b8'' then 4 \<le> length rlp else True))"

text \<open>
  The bytes start with a complete RLP header, as far as the selector looks at it: there
  is a first byte, and after \<open>b8\<close> one length byte, after \<open>b9\<close> two.
\<close>

definition header_complete :: "byte list \<Rightarrow> bool" where
  "header_complete bs =
     (case bs of
        [] \<Rightarrow> False
      | b # _ \<Rightarrow> (if b = 0xb9 then 3 \<le> length bs
                   else if b = 0xb8 then 2 \<le> length bs else True))"

definition all_sliceable :: "types_Block \<Rightarrow> bool" where
  "all_sliceable block =
     list_all (\<lambda>tx. kept (Coinbase block) tx \<longrightarrow> sliceable (TxToRlp tx))
       (types_Block.Transactions block)"

subsection \<open>Example blocks\<close>

text \<open>
  The block of the specification's scenario: coinbase \<open>0xCAFE\<close>, a transaction from the
  coinbase, one to it, and an ordinary one; the sender of the ordinary one is not
  recovered. The encodings are short stand-ins with the first bytes that matter.
\<close>

definition tx_from_coinbase :: types_Transaction where
  "tx_from_coinbase = \<lparr>Sender = Some 0xCAFE, To = Some 0xBEEF, EncodeRLP = [0xf8, 0x01, 0x80]\<rparr>"

definition tx_to_coinbase :: types_Transaction where
  "tx_to_coinbase = \<lparr>Sender = Some 0xF00D, To = Some 0xCAFE, EncodeRLP = [0xf8, 0x01, 0x81]\<rparr>"

definition tx_ordinary :: types_Transaction where
  "tx_ordinary = \<lparr>Sender = None, To = Some 0xBEEF, EncodeRLP = [0xb8, 0x02, 0x02, 0xc0]\<rparr>"

definition tx_long :: types_Transaction where
  "tx_long = \<lparr>Sender = Some 0xF00D, To = None, EncodeRLP = [0xb9, 0x00, 0x02, 0x02, 0xc1]\<rparr>"

definition tx_plain :: types_Transaction where
  "tx_plain = \<lparr>Sender = Some 0xF00D, To = Some 0xBEEF, EncodeRLP = [0xf8, 0x01, 0x82]\<rparr>"

definition scenario_block :: types_Block where
  "scenario_block =
     \<lparr>Coinbase = 0xCAFE, Transactions = [tx_from_coinbase, tx_to_coinbase, tx_ordinary],
      Number = 17000000, ParentHash = []\<rparr>"

definition five_block :: types_Block where
  "five_block =
     \<lparr>Coinbase = 0xCAFE,
      Transactions = [tx_ordinary, tx_from_coinbase, tx_long, tx_to_coinbase, tx_plain],
      Number = 17000000, ParentHash = []\<rparr>"

text \<open>A hash-only block payload after decoding, with two hashes.\<close>

definition two_hash_proxy :: proxyBlockWithoutTransactions where
  "two_hash_proxy =
     \<lparr>proxyBlockWithoutTransactions.Number = 1, Hash = ''0x01'', ParentHash = ''0x00'',
      Nonce = ''0x0'', Sha3Uncles = [], LogsBloom = [], TransactionsRoot = [], StateRoot = [],
      Miner = ''0xcafe'', Difficulty = 2, TotalDifficulty = 3, ExtraData = [], Size = 4,
      GasLimit = 5, GasUsed = 6, Timestamp = 7, Uncles = [],
      Transactions = [''0xabc'', ''0xdef'']\<rparr>"

section \<open>Notions and examples used in the statements about the transport\<close>

text \<open>The bodies of the requests a run has sent, in order.\<close>

fun sent_bodies :: "'l event list \<Rightarrow> json list" where
  "sent_bodies [] = []"
| "sent_bodies (HttpDo req t # es) = req_body req # sent_bodies es"
| "sent_bodies (LogCall l m b d # es) = sent_bodies es"
| "sent_bodies (LogAuthCall l m b a d # es) = sent_bodies es"
| "sent_bodies (Unmarshal t # es) = sent_bodies es"

text \<open>The request envelope with the given value in its \<open>params\<close> member.\<close>

definition envelope :: "string \<Rightarrow> json \<Rightarrow> json" where
  "envelope method params_member =
     JObject [(''id'', JNumber ''1''), (''jsonrpc'', JString ''2.0''),
              (''method'', JString method), (''params'', params_member)]"

text \<open>
  A client as \<open>New\<close> builds it, with a default client that always fails, and a world
  that accepts every URL and answers every request with the same body.
\<close>

definition failing_client :: httpClient where
  "failing_client u contentType body = DoFailed ''unused''"

definition example_rpc :: "unit FlashXRoute" where
  "example_rpc = New failing_client () ''https://relay.example'' []"

definition answering :: "wire \<Rightarrow> env" where
  "answering data = \<lparr>NewRequest_ok = (\<lambda>m u. True), Do = (\<lambda>req t. Body data)\<rparr>"

text \<open>The two error bodies of the specification's examples, and a sync status.\<close>

definition flat_error_body :: wire where
  "flat_error_body = Json (JObject [(''error'', JString ''block param must be a hex int'')])"

definition method_not_found_body :: wire where
  "method_not_found_body =
     Json (JObject [(''id'', JNumber ''1''), (''jsonrpc'', JString ''2.0''),
                    (''result'', JNull),
                    (''error'', JObject [(''code'', JNumber ''-32601''),
                                         (''message'', JString ''method not found'')])])"

definition not_syncing_body :: wire where
  "not_syncing_body =
     Json (JObject [(''id'', JNumber ''1''), (''jsonrpc'', JString ''2.0''),
                    (''result'', JBool False)])"

section \<open>The codec round trip\<close>

subsection \<open>Digits\<close>

lemma digit_val_hex_digit: "d < 16 \<Longrightarrow> digit_val (hex_digit d) = Some d"
proof -
  assume "d < 16"
  then have "d \<in> set [0..<16]" by simp
  then show ?thesis
    by (auto simp: digit_val_def hex_digit_def numeral_nat upt_conv_Cons)
qed

lemma hex_digit_plain:
  "d < 16 \<Longrightarrow>
     hex_digit d \<noteq> CHR ''-'' \<and> hex_digit d \<noteq> CHR ''+'' \<and> hex_digit d \<noteq> CHR ''_'' \<and>
     (of_char (hex_digit d) :: nat) < 128"
proof -
  assume "d < 16"
  then have "d \<in> set [0..<16]" by simp
  then show ?thesis
    by (auto simp: hex_digit_def numeral_nat upt_conv_Cons)
qed

subsection \<open>ParseInt after IntToHex\<close>

lemma ParseUint_loop_append:
  "ParseUint_loop b n (xs @ ys) =
     (case ParseUint_loop b n xs of Inl e \<Rightarrow> Inl e | Inr m \<Rightarrow> ParseUint_loop b m ys)"
  by (induction xs arbitrary: n) (auto split: option.splits)

lemma ParseUint_loop_hex_nat:
  "n < 2 ^ 64 \<Longrightarrow> ParseUint_loop 16 0 (hex_nat n) = Inr n"
proof (induction n rule: hex_nat.induct)
  case (1 n)
  show ?case
  proof (cases "n < 16")
    case True
    then show ?thesis
      using "1.prems" by (simp add: hex_nat.simps [of n] digit_val_hex_digit maxUint64_def)
  next
    case False
    have small: "n div 16 < 2 ^ 64" using "1.prems" by simp
    have ih: "ParseUint_loop 16 0 (hex_nat (n div 16)) = Inr (n div 16)"
      using "1.IH" [OF False small] .
    have lt: "n div 16 < 2 ^ 60" using "1.prems" by simp
    have d: "n mod 16 < 16" by simp
    have le: "n div 16 * 16 + n mod 16 \<le> maxUint64"
      using "1.prems" by (simp add: maxUint64_def)
    show ?thesis
      using False lt le
      by (simp add: hex_nat.simps [of n] ParseUint_loop_append ih
          digit_val_hex_digit [OF d] maxUint64_def)
  qed
qed

lemma hex_nat_starts_with_digit: "\<exists>d cs. d < 16 \<and> hex_nat n = hex_digit d # cs"
proof (induction n rule: hex_nat.induct)
  case (1 n)
  show ?case
  proof (cases "n < 16")
    case True
    then show ?thesis by (subst hex_nat.simps) auto
  next
    case False
    from "1.IH" [OF False] obtain d cs where "d < 16" "hex_nat (n div 16) = hex_digit d # cs"
      by blast
    then show ?thesis using False by (subst hex_nat.simps) auto
  qed
qed

lemma ParseInt_IntToHex:
  assumes "0 \<le> n" "n < 2 ^ 63"
  shows "ParseInt (IntToHex n) = Inr n"
proof -
  obtain d cs where d: "d < 16" and h: "hex_nat (nat n) = hex_digit d # cs"
    using hex_nat_starts_with_digit by blast
  have lt: "nat n < 2 ^ 63" using assms by (simp add: nat_less_iff)
  then have "nat n < 2 ^ 64" by simp
  then have pu: "ParseUint_loop 16 0 (hex_nat (nat n)) = Inr (nat n)"
    by (rule ParseUint_loop_hex_nat)
  have "ParseInt (IntToHex n) = strconv_ParseInt (hex_nat (nat n)) 16"
    using assms(1) by (simp add: ParseInt_def IntToHex_def fmt_x_int_def TrimPrefix_def)
  also have "\<dots> = Inr n"
    using hex_digit_plain [OF d] pu lt assms(1)
    by (simp add: strconv_ParseInt_def h ParseUint_def)
  finally show ?thesis .
qed

subsection \<open>ParseBigInt after BigToHex\<close>

lemma scan_loop_hex:
  "is_hex xs \<Longrightarrow> xs \<noteq> [] \<Longrightarrow>
   scan_loop 16 st xs =
     st\<lparr>acc := digits_value (acc st) xs, digits_read := digits_read st + length xs,
        prev_sep := False, prev_digit := True\<rparr>"
proof (induction xs arbitrary: st)
  case Nil
  then show ?case by simp
next
  case (Cons c cs)
  from Cons.prems obtain d where d: "d < 16" and c: "c = hex_digit d"
    by (auto simp: is_hex_def)
  have cs: "is_hex cs" using Cons.prems by (simp add: is_hex_def)
  note facts = hex_digit_plain [OF d] digit_val_hex_digit [OF d]
  show ?case
  proof (cases "cs = []")
    case True
    then show ?thesis using facts d by (simp add: c digits_value_def)
  next
    case False
    show ?thesis
      using facts d by (simp add: c Cons.IH [OF cs False] digits_value_def)
  qed
qed

lemma high_nibble: "unat (b :: byte) div 16 < 16"
proof -
  have "unat b < 256" using unsigned_less [of b] by simp
  then show ?thesis by (simp add: less_mult_imp_div_less)
qed

lemma is_hex_fmt_x_bytes: "is_hex (fmt_x_bytes bs)"
  unfolding is_hex_def
proof
  fix c
  assume "c \<in> set (fmt_x_bytes bs)"
  then obtain b :: byte
    where c: "c = hex_digit (unat b div 16) \<or> c = hex_digit (unat b mod 16)"
    by (auto simp: fmt_x_bytes_def)
  have "unat b mod 16 < 16" by simp
  with high_nibble [of b] show "\<exists>d<16. c = hex_digit d" using c by blast
qed

lemma fmt_x_bytes_snoc:
  "fmt_x_bytes (bs @ [b])
     = fmt_x_bytes bs @ [hex_digit (unat b div 16), hex_digit (unat b mod 16)]"
  by (simp add: fmt_x_bytes_def)

lemma unat_low_byte: "unat (of_nat (n mod 256) :: byte) = n mod 256"
  by (simp add: unat_of_nat)

lemma split_byte: "(n div 256 * 16 + n mod 256 div 16) * 16 + n mod 256 mod 16 = (n::nat)"
proof -
  have "(n div 256 * 16 + n mod 256 div 16) * 16 + n mod 256 mod 16
          = n div 256 * 256 + (n mod 256 div 16 * 16 + n mod 256 mod 16)"
    by (simp add: algebra_simps)
  also have "\<dots> = n div 256 * 256 + n mod 256"
    by (simp only: div_mult_mod_eq)
  also have "\<dots> = n"
    by (simp only: div_mult_mod_eq)
  finally show ?thesis .
qed

lemma digits_value_nat_bytes: "digits_value 0 (fmt_x_bytes (map of_nat (nat_bytes n))) = n"
proof (induction n rule: nat_bytes.induct)
  case (1 n)
  show ?case
  proof (cases "n = 0")
    case True
    then show ?thesis by (simp add: nat_bytes.simps [of 0] fmt_x_bytes_def digits_value_def)
  next
    case False
    have hi: "n mod 256 div 16 < 16" by (simp add: less_mult_imp_div_less)
    have lo: "n mod 256 mod 16 < 16" by simp
    have ih: "digits_value 0 (fmt_x_bytes (map of_nat (nat_bytes (n div 256)))) = n div 256"
      using "1.IH" [OF False] .
    have "digits_value 0 (fmt_x_bytes (map of_nat (nat_bytes n))) =
            (n div 256 * 16 + n mod 256 div 16) * 16 + n mod 256 mod 16"
      using False ih
      by (simp add: nat_bytes.simps [of n] fmt_x_bytes_snoc digits_value_def unat_low_byte
          digit_val_hex_digit [OF hi] digit_val_hex_digit [OF lo])
    also have "\<dots> = n" by (rule split_byte)
    finally show ?thesis .
  qed
qed

lemma length_fmt_x_bytes: "length (fmt_x_bytes bs) = 2 * length bs"
  by (induction bs) (simp_all add: fmt_x_bytes_def)

lemma nat_bytes_Nil_iff: "nat_bytes n = [] \<longleftrightarrow> n = 0"
  by (subst nat_bytes.simps) simp

lemma nat_bitlen_0_iff: "nat_bitlen n = 0 \<longleftrightarrow> n = 0"
  by (subst nat_bitlen.simps) simp

lemma TrimPrefix_zero_cases:
  "TrimPrefix s ''0'' = (case s of [] \<Rightarrow> [] | c # cs \<Rightarrow> if c = CHR ''0'' then cs else s)"
  by (cases s) (auto simp: TrimPrefix_def)

lemma trimmed_hex:
  assumes "0 < n"
  defines "t \<equiv> TrimPrefix (fmt_x_bytes (map of_nat (nat_bytes n))) ''0''"
  shows "is_hex t" "t \<noteq> []" "digits_value 0 t = n"
proof -
  let ?s = "fmt_x_bytes (map of_nat (nat_bytes n))"
  have hex: "is_hex ?s" by (rule is_hex_fmt_x_bytes)
  have len: "2 \<le> length ?s"
    using assms(1) nat_bytes_Nil_iff [of n]
    by (cases "nat_bytes n") (simp_all add: length_fmt_x_bytes)
  have val: "digits_value 0 ?s = n" by (rule digits_value_nat_bytes)
  obtain c cs where s: "?s = c # cs" "cs \<noteq> []"
    using len by (cases ?s; cases "tl ?s") auto
  have z: "digit_val CHR ''0'' = Some 0" by (simp add: digit_val_def)
  show "is_hex t" using hex s by (auto simp: t_def TrimPrefix_zero_cases is_hex_def)
  show "t \<noteq> []" using s by (auto simp: t_def TrimPrefix_zero_cases)
  show "digits_value 0 t = n"
    using val s z by (auto simp: t_def TrimPrefix_zero_cases digits_value_def)
qed

lemma ParseBigInt_BigToHex_pos:
  assumes "0 < n"
  shows "ParseBigInt (BigToHex n) = (n, None)"
proof -
  define t where "t = TrimPrefix (fmt_x_bytes (map of_nat (nat_bytes (nat n)))) ''0''"
  have pos: "0 < nat n" using assms by simp
  note t = trimmed_hex [OF pos, folded t_def]
  have b: "BigToHex n = CHR ''0'' # CHR ''x'' # t"
    using assms by (simp add: BigToHex_def BitLen_def Bytes_def nat_bitlen_0_iff t_def)
  have sp: "SkipSpace (CHR ''0'' # CHR ''x'' # t) = CHR ''0'' # CHR ''x'' # t"
    by (simp add: DecodeRune_def isSpace_def)
  have sc: "nat_scan (CHR ''0'' # CHR ''x'' # t) = (nat n, None)"
    using t by (simp add: nat_scan_def scan_loop_hex)
  show ?thesis
    unfolding ParseBigInt_def b sp using assms by (simp add: Int_scan_def sc)
qed

lemma BigToHex_zero: "BigToHex 0 = ''0x0''"
  by (simp add: BigToHex_def BitLen_def nat_bitlen.simps)

lemma IntToHex_zero: "IntToHex 0 = ''0x0''"
  by (simp add: IntToHex_def fmt_x_int_def hex_nat.simps hex_digit_def)

lemma ParseBigInt_zero: "ParseBigInt ''0x0'' = (0, None)"
  by (simp add: ParseBigInt_def DecodeRune_def isSpace_def Int_scan_def nat_scan_def digit_val_def)

text \<open>
  C4. Round trip of the codec: \<open>ParseInt\<close> gives back every non-negative integer of the
  64-bit signed range that \<open>IntToHex\<close> has formatted, \<open>ParseBigInt\<close> gives back, without
  an error, every non-negative integer that \<open>BigToHex\<close> has formatted, and both format
  zero as exactly \<open>0x0\<close>.
\<close>

theorem codec_round_trip:
  "(0 \<le> n \<and> n < 2 ^ 63 \<longrightarrow> ParseInt (IntToHex n) = Inr n) \<and>
   (0 \<le> m \<longrightarrow> ParseBigInt (BigToHex m) = (m, None)) \<and>
   IntToHex 0 = ''0x0'' \<and> BigToHex 0 = ''0x0''"
proof (intro conjI impI)
  assume "0 \<le> n \<and> n < 2 ^ 63"
  then show "ParseInt (IntToHex n) = Inr n" by (simp add: ParseInt_IntToHex)
next
  assume m: "0 \<le> m"
  show "ParseBigInt (BigToHex m) = (m, None)"
  proof (cases "m = 0")
    case True
    then show ?thesis by (simp add: BigToHex_zero ParseBigInt_zero)
  next
    case False
    with m have "0 < m" by simp
    then show ?thesis by (rule ParseBigInt_BigToHex_pos)
  qed
qed (rule IntToHex_zero BigToHex_zero)+

theorem codec_round_trip_witness:
  "(0::int) \<le> 9223372036854775807 \<and> (9223372036854775807::int) < 2 ^ 63 \<and>
   ParseInt (IntToHex 9223372036854775807) = Inr 9223372036854775807 \<and>
   (0::int) \<le> 340282366920938463463374607431768211456 \<and>
   ParseBigInt (BigToHex 340282366920938463463374607431768211456)
     = (340282366920938463463374607431768211456, None)"
  using codec_round_trip [of 9223372036854775807 340282366920938463463374607431768211456]
  by simp

section \<open>The transport\<close>

subsection \<open>Evaluating the examples\<close>

lemma Itoa_1: "Itoa 1 = ''1''"
  by (simp add: Itoa_def dec_nat.simps hex_digit_def)

lemma marshal_request:
  "marshal_rpcRequest \<lparr>ID = 1, JSONRPC = ''2.0'', Method = method, Params = Some v\<rparr>
     = Some (envelope method v)"
  by (simp add: marshal_rpcRequest_def envelope_def Itoa_1)

lemma answering_simps:
  "NewRequest_ok (answering data) m u" "Do (answering data) req t = Body data"
  by (simp_all add: answering_def)

lemma ParseInt_literals:
  "strconv_ParseInt ''1'' 10 = Inr 1"
  "strconv_ParseInt ''-32601'' 10 = Inr (- 32601)"
  by (simp_all add: strconv_ParseInt_def ParseUint_def digit_val_def maxUint64_def)

lemma field_keys:
  "is_field ''id'' ''id''"
  "\<not> is_field ''id'' ''jsonrpc''" "is_field ''jsonrpc'' ''jsonrpc''"
  "\<not> is_field ''id'' ''result''" "\<not> is_field ''jsonrpc'' ''result''" "is_field ''result'' ''result''"
  "\<not> is_field ''id'' ''error''" "\<not> is_field ''jsonrpc'' ''error''" "\<not> is_field ''result'' ''error''"
  "is_field ''error'' ''error''"
  "is_field ''code'' ''code''" "\<not> is_field ''code'' ''message''" "is_field ''message'' ''message''"
  "\<not> is_field ''error'' ''id''" "\<not> is_field ''error'' ''jsonrpc''" "\<not> is_field ''error'' ''result''"
  by (simp_all add: is_field_def toUpper_def)

lemma unmarshal_method_not_found:
  "unmarshal_rpcResponse method_not_found_body =
     Inr \<lparr>rpcResponse.ID = 1, JSONRPC = ''2.0'', Result = Some JNull,
          rpcResponse.Error = Some \<lparr>Code = - 32601, Message = ''method not found''\<rparr>\<rparr>"
  by (simp add: unmarshal_rpcResponse_def method_not_found_body_def field_keys ParseInt_literals
      unmarshal_int_def unmarshal_string_def unmarshal_RpcError_ptr_def)

lemma unmarshal_flat_error:
  "unmarshal_RelayErrorResponse flat_error_body
     = Inr \<lparr>RelayErrorResponse.Error = ''block param must be a hex int''\<rparr>"
  by (simp add: unmarshal_RelayErrorResponse_def flat_error_body_def field_keys unmarshal_string_def)

lemma unmarshal_flat_method_not_found:
  "unmarshal_RelayErrorResponse method_not_found_body = Inl UnmarshalTypeError"
  by (simp add: unmarshal_RelayErrorResponse_def method_not_found_body_def field_keys
      unmarshal_string_def)

subsection \<open>The request body\<close>

lemma Call_sent:
  assumes "NewRequest_ok env ''POST'' (url rpc)"
  shows "\<exists>rest. fst (Call rpc env method (Some v # ps))
           = HttpDo (POST_request rpc [] (envelope method v)) (Timeout rpc) # rest
         \<and> sent_bodies rest = []"
  using assms
  by (auto simp: Call_def marshal_request Let_def
      split: http_result.splits sum.splits option.splits)

lemma CallAuth_sent:
  assumes "NewRequest_ok env ''POST'' (url rpc)"
  shows "\<exists>rest. fst (CallWithBloxrouteAuthHeader rpc env method authHeader (Some v # ps))
           = HttpDo (POST_request rpc [(''Authorization'', authHeader)] (envelope method v))
               (Timeout rpc) # rest
         \<and> sent_bodies rest = []"
  using assms
  by (auto simp: CallWithBloxrouteAuthHeader_def marshal_request Let_def
      split: http_result.splits sum.splits option.splits)

text \<open>
  C1, amended. The specification has the array of all parameters as the \<open>params\<close>
  member of every request body. On the bloXroute path the member is the request object
  itself: each bloXroute method hands \<open>CallWithBloxrouteAuthHeader\<close> one request
  struct, and the call puts \<open>params[0]\<close> in the body. So for
  \<open>CallWithBloxrouteAuthHeader\<close> with exactly one parameter that \<open>json.Marshal\<close> can
  encode, and a URL that \<open>http.NewRequest\<close> accepts, the one request sent has the body
  \<open>{id: 1, jsonrpc: "2.0", method: <the method name>, params: <the encoding of the
  parameter>}\<close>, and the body of \<open>BloxrouteSimulateBundle\<close> is that envelope for the
  method \<open>blxr_simulate_bundle\<close> with the encoded request as \<open>params\<close>. Nothing is
  stated here about \<open>Call\<close>.
\<close>

theorem bloxroute_request_body:
  assumes "NewRequest_ok env ''POST'' (url rpc)"
  shows "sent_bodies (fst (CallWithBloxrouteAuthHeader rpc env method authHeader [Some v]))
           = [envelope method v] \<and>
         sent_bodies (fst (BloxrouteSimulateBundle_call rpc env authHeader req))
           = [envelope ''blxr_simulate_bundle'' (marshal_BloxrouteSimulateBundleRequest req)]"
proof
  from CallAuth_sent [OF assms, of "method" authHeader v "[]"]
  show "sent_bodies (fst (CallWithBloxrouteAuthHeader rpc env method authHeader [Some v]))
           = [envelope method v]"
    by (auto simp: POST_request_def)
  from CallAuth_sent [OF assms, of "''blxr_simulate_bundle''" authHeader
      "marshal_BloxrouteSimulateBundleRequest req" "[]"]
  show "sent_bodies (fst (BloxrouteSimulateBundle_call rpc env authHeader req))
           = [envelope ''blxr_simulate_bundle'' (marshal_BloxrouteSimulateBundleRequest req)]"
    by (auto simp: POST_request_def BloxrouteSimulateBundle_call_def)
qed

theorem bloxroute_request_body_witness:
  "NewRequest_ok (answering (Json JNull)) ''POST'' (url example_rpc) \<and>
   sent_bodies (fst (CallWithBloxrouteAuthHeader example_rpc (answering (Json JNull))
                       ''blxr_tx'' ''auth'' [Some (JObject [(''transaction'', JString ''f86b'')])]))
     = [JObject [(''id'', JNumber ''1''), (''jsonrpc'', JString ''2.0''),
                 (''method'', JString ''blxr_tx''),
                 (''params'', JObject [(''transaction'', JString ''f86b'')])]] \<and>
   sent_bodies (fst (BloxrouteSimulateBundle_call example_rpc (answering (Json JNull)) ''auth''
                       \<lparr>Transaction = Some [''f86b''], BlockNumber = ''0x10'',
                        StateBlockNumber = ''latest'', Timestamp = 0\<rparr>))
     = [JObject [(''id'', JNumber ''1''), (''jsonrpc'', JString ''2.0''),
                 (''method'', JString ''blxr_simulate_bundle''),
                 (''params'', JObject [(''transaction'', JArray [JString ''f86b'']),
                                       (''block_number'', JString ''0x10''),
                                       (''state_block_number'', JString ''latest'')])]]"
  using bloxroute_request_body [of "answering (Json JNull)" example_rpc
      "''blxr_tx''" "''auth''" "JObject [(''transaction'', JString ''f86b'')]"
      "\<lparr>Transaction = Some [''f86b''], BlockNumber = ''0x10'',
        StateBlockNumber = ''latest'', Timestamp = 0\<rparr>"]
  by (simp add: answering_simps envelope_def marshal_BloxrouteSimulateBundleRequest_def)

text \<open>
  C1 in its original wording fails on the bloXroute path: the body that
  \<open>CallWithBloxrouteAuthHeader\<close> sends for \<open>blxr_simulate_bundle\<close> with one request
  object has the object as \<open>params\<close>, not the array holding it.
\<close>

theorem bloxroute_params_is_not_the_array:
  "sent_bodies (fst (CallWithBloxrouteAuthHeader example_rpc (answering (Json JNull))
                       ''blxr_simulate_bundle'' ''auth''
                       [Some (JObject [(''transaction'', JArray [JString ''f86b'']),
                                       (''block_number'', JString ''0x10'')])]))
     = [envelope ''blxr_simulate_bundle''
          (JObject [(''transaction'', JArray [JString ''f86b'']),
                    (''block_number'', JString ''0x10'')])] \<and>
   sent_bodies (fst (CallWithBloxrouteAuthHeader example_rpc (answering (Json JNull))
                       ''blxr_simulate_bundle'' ''auth''
                       [Some (JObject [(''transaction'', JArray [JString ''f86b'']),
                                       (''block_number'', JString ''0x10'')])]))
     \<noteq> [envelope ''blxr_simulate_bundle''
          (JArray [JObject [(''transaction'', JArray [JString ''f86b'']),
                            (''block_number'', JString ''0x10'')]])]"
proof -
  have ok: "NewRequest_ok (answering (Json JNull)) ''POST'' (url example_rpc)"
    by (simp add: answering_simps)
  from CallAuth_sent [OF ok, of "''blxr_simulate_bundle''" "''auth''"
      "JObject [(''transaction'', JArray [JString ''f86b'']),
                (''block_number'', JString ''0x10'')]" "[]"]
  have sent: "sent_bodies (fst (CallWithBloxrouteAuthHeader example_rpc (answering (Json JNull))
                       ''blxr_simulate_bundle'' ''auth''
                       [Some (JObject [(''transaction'', JArray [JString ''f86b'']),
                                       (''block_number'', JString ''0x10'')])]))
     = [envelope ''blxr_simulate_bundle''
          (JObject [(''transaction'', JArray [JString ''f86b'']),
                    (''block_number'', JString ''0x10'')])]"
    by (auto simp: POST_request_def)
  show ?thesis
    unfolding sent by (simp add: envelope_def)
qed

subsection \<open>No parameters\<close>

text \<open>
  C2, which the code does not meet. A call without parameters should not panic. It does:
  \<open>Call\<close> and \<open>CallWithBloxrouteAuthHeader\<close> read \<open>params[0]\<close> of the empty slice
  before anything is sent, and so does every wrapper that passes no parameter.
\<close>

theorem zero_parameters_panic:
  "Call rpc env method [] = ([], Panic IndexOutOfRange) \<and>
   CallWithBloxrouteAuthHeader rpc env method authHeader [] = ([], Panic IndexOutOfRange) \<and>
   RawCall rpc env method [] = ([], Panic IndexOutOfRange) \<and>
   Web3ClientVersion rpc env = ([], Panic IndexOutOfRange) \<and>
   NetVersion rpc env = ([], Panic IndexOutOfRange)"
  by (simp add: Call_def CallWithBloxrouteAuthHeader_def RawCall_def Web3ClientVersion_def
      NetVersion_def call_def)

text \<open>
  C8, which the code does not meet. \<open>EthSyncing\<close> should return a \<open>Syncing\<close> with
  \<open>IsSyncing = false\<close> and zero blocks when the result on the wire is \<open>false\<close>. It
  never gets a result: it calls \<open>RawCall\<close> without parameters, which panics whatever
  the node would answer, also for a node that answers \<open>false\<close>. The lines after the
  call are right: handed the result \<open>false\<close>, they return that record and decode
  nothing.
\<close>

theorem EthSyncing_panics:
  "EthSyncing rpc env = ([], Panic IndexOutOfRange) \<and>
   EthSyncing example_rpc (answering not_syncing_body) = ([], Panic IndexOutOfRange) \<and>
   EthSyncing_after (tr, Ok (Some (JBool False)))
     = (tr, Ok \<lparr>Syncing.IsSyncing = False, Syncing.StartingBlock = 0,
                Syncing.CurrentBlock = 0, Syncing.HighestBlock = 0\<rparr>)"
  by (simp add: EthSyncing_def EthSyncing_after_def RawCall_def Call_def)

subsection \<open>Errors of the plain call\<close>

lemma Call_answered:
  assumes "NewRequest_ok env ''POST'' (url rpc)"
    and "Do env (POST_request rpc [] (envelope method v)) (Timeout rpc) = Body data"
  shows "snd (Call rpc env method (Some v # ps)) =
           (case unmarshal_rpcResponse data of
              Inl e \<Rightarrow> Err e
            | Inr resp \<Rightarrow>
                (case rpcResponse.Error resp of
                   Some e \<Rightarrow> Err (ProtocolError e)
                 | None \<Rightarrow> Ok (Result resp)))"
  using assms
  by (simp add: Call_def marshal_request Let_def split: sum.split option.split)

text \<open>
  C7. When the body that answers a plain call decodes as the standard envelope with an
  error that is not null, the call fails with that \<open>RpcError\<close>, code and message, and
  returns no result. The envelope of the specification's example gives code \<open>-32601\<close>
  and message \<open>method not found\<close>. (A response exists only for a call that has sent
  its request: the first parameter is there and can be encoded, and the URL is accepted.)
\<close>

theorem plain_call_protocol_error:
  assumes "NewRequest_ok env ''POST'' (url rpc)"
    and "Do env (POST_request rpc [] (envelope method v)) (Timeout rpc) = Body data"
  shows "(\<forall>resp e. unmarshal_rpcResponse data = Inr resp \<and> rpcResponse.Error resp = Some e \<longrightarrow>
            snd (Call rpc env method (Some v # ps)) = Err (ProtocolError e)) \<and>
         (data = method_not_found_body \<longrightarrow>
            snd (Call rpc env method (Some v # ps))
              = Err (ProtocolError \<lparr>Code = - 32601, Message = ''method not found''\<rparr>))"
  by (simp add: Call_answered [OF assms] unmarshal_method_not_found)

theorem plain_call_protocol_error_witness:
  "NewRequest_ok (answering method_not_found_body) ''POST'' (url example_rpc) \<and>
   Do (answering method_not_found_body)
      (POST_request example_rpc [] (envelope ''eth_unknown'' (JArray []))) (Timeout example_rpc)
     = Body method_not_found_body \<and>
   unmarshal_rpcResponse method_not_found_body =
     Inr \<lparr>rpcResponse.ID = 1, JSONRPC = ''2.0'', Result = Some JNull,
          rpcResponse.Error = Some \<lparr>Code = - 32601, Message = ''method not found''\<rparr>\<rparr> \<and>
   snd (Call example_rpc (answering method_not_found_body) ''eth_unknown'' [Some (JArray [])])
     = Err (ProtocolError \<lparr>Code = - 32601, Message = ''method not found''\<rparr>)"
  using plain_call_protocol_error [of "answering method_not_found_body" example_rpc
      "''eth_unknown''" "JArray []" method_not_found_body "[]"]
  by (simp add: answering_simps unmarshal_method_not_found)

subsection \<open>Errors of the authenticated call\<close>

lemma CallAuth_answered:
  assumes "NewRequest_ok env ''POST'' (url rpc)"
    and "Do env (POST_request rpc [(''Authorization'', authHeader)] (envelope method v)) (Timeout rpc)
           = Body data"
  shows "CallWithBloxrouteAuthHeader rpc env method authHeader (Some v # ps) =
           (let tr1 = [HttpDo (POST_request rpc [(''Authorization'', authHeader)] (envelope method v))
                         (Timeout rpc)]
                      @ (if Debug rpc
                         then [LogAuthCall (log rpc) method (envelope method v) authHeader data]
                         else [])
                      @ [Unmarshal IntoRelayErrorResponse];
                tr2 = tr1 @ [Unmarshal IntoRpcResponse];
                second =
                  (case unmarshal_rpcResponse data of
                     Inl e \<Rightarrow> (tr2, Err e)
                   | Inr resp \<Rightarrow>
                       (case rpcResponse.Error resp of
                          Some e \<Rightarrow> (tr2, Err (RelayError (Message e)))
                        | None \<Rightarrow> (tr2, Ok (Result resp))))
            in (case unmarshal_RelayErrorResponse data of
                  Inl _ \<Rightarrow> second
                | Inr errorResp \<Rightarrow>
                    if RelayErrorResponse.Error errorResp \<noteq> []
                    then (tr1, Err (RelayError (RelayErrorResponse.Error errorResp)))
                    else second))"
  using assms
  by (simp add: CallWithBloxrouteAuthHeader_def marshal_request Let_def)

text \<open>
  C3. For the body that answers an authenticated call: when it decodes as the flat shape
  with a non-empty \<open>error\<close> string, the call fails with a \<open>RelayError\<close> of exactly that
  message and never decodes the body as the standard envelope; when it does not (the
  flat decoding fails or leaves the string empty), the body is decoded as the standard
  envelope, and an error of the envelope is returned as a \<open>RelayError\<close> of the message
  of that error.
\<close>

theorem relay_error_precedence:
  assumes "NewRequest_ok env ''POST'' (url rpc)"
    and "Do env (POST_request rpc [(''Authorization'', authHeader)] (envelope method v)) (Timeout rpc)
           = Body data"
  shows "(\<forall>msg. unmarshal_RelayErrorResponse data = Inr \<lparr>RelayErrorResponse.Error = msg\<rparr> \<and>
                msg \<noteq> [] \<longrightarrow>
            snd (CallWithBloxrouteAuthHeader rpc env method authHeader (Some v # ps))
              = Err (RelayError msg) \<and>
            Unmarshal IntoRpcResponse
              \<notin> set (fst (CallWithBloxrouteAuthHeader rpc env method authHeader (Some v # ps)))) \<and>
         ((\<forall>msg. unmarshal_RelayErrorResponse data = Inr \<lparr>RelayErrorResponse.Error = msg\<rparr> \<longrightarrow>
                 msg = []) \<longrightarrow>
            Unmarshal IntoRpcResponse
              \<in> set (fst (CallWithBloxrouteAuthHeader rpc env method authHeader (Some v # ps))) \<and>
            (\<forall>resp e. unmarshal_rpcResponse data = Inr resp \<and> rpcResponse.Error resp = Some e \<longrightarrow>
               snd (CallWithBloxrouteAuthHeader rpc env method authHeader (Some v # ps))
                 = Err (RelayError (Message e))))"
proof (intro conjI allI impI)
  fix msg
  assume "unmarshal_RelayErrorResponse data = Inr \<lparr>RelayErrorResponse.Error = msg\<rparr> \<and> msg \<noteq> []"
  then show "snd (CallWithBloxrouteAuthHeader rpc env method authHeader (Some v # ps))
              = Err (RelayError msg)"
    and "Unmarshal IntoRpcResponse
              \<notin> set (fst (CallWithBloxrouteAuthHeader rpc env method authHeader (Some v # ps)))"
    by (simp_all add: CallAuth_answered [OF assms] Let_def)
next
  assume absent:
    "\<forall>msg. unmarshal_RelayErrorResponse data = Inr \<lparr>RelayErrorResponse.Error = msg\<rparr> \<longrightarrow> msg = []"
  have flat: "\<And>r. unmarshal_RelayErrorResponse data = Inr r \<Longrightarrow> RelayErrorResponse.Error r = []"
  proof -
    fix r
    assume "unmarshal_RelayErrorResponse data = Inr r"
    then have "unmarshal_RelayErrorResponse data
                 = Inr \<lparr>RelayErrorResponse.Error = RelayErrorResponse.Error r\<rparr>"
      by simp
    with absent show "RelayErrorResponse.Error r = []" by blast
  qed
  show "Unmarshal IntoRpcResponse
          \<in> set (fst (CallWithBloxrouteAuthHeader rpc env method authHeader (Some v # ps)))"
    by (auto simp: CallAuth_answered [OF assms] Let_def flat split: sum.split option.split)
  fix resp e
  assume "unmarshal_rpcResponse data = Inr resp \<and> rpcResponse.Error resp = Some e"
  then show "snd (CallWithBloxrouteAuthHeader rpc env method authHeader (Some v # ps))
               = Err (RelayError (Message e))"
    by (auto simp: CallAuth_answered [OF assms] Let_def flat split: sum.split option.split)
qed

theorem relay_error_precedence_witness:
  "NewRequest_ok (answering flat_error_body) ''POST'' (url example_rpc) \<and>
   Do (answering flat_error_body)
      (POST_request example_rpc [(''Authorization'', ''auth'')]
         (envelope ''blxr_simulate_bundle'' (JObject []))) (Timeout example_rpc)
     = Body flat_error_body \<and>
   unmarshal_RelayErrorResponse flat_error_body
     = Inr \<lparr>RelayErrorResponse.Error = ''block param must be a hex int''\<rparr> \<and>
   snd (CallWithBloxrouteAuthHeader example_rpc (answering flat_error_body)
          ''blxr_simulate_bundle'' ''auth'' [Some (JObject [])])
     = Err (RelayError ''block param must be a hex int'') \<and>
   Unmarshal IntoRpcResponse
     \<notin> set (fst (CallWithBloxrouteAuthHeader example_rpc (answering flat_error_body)
                    ''blxr_simulate_bundle'' ''auth'' [Some (JObject [])])) \<and>
   unmarshal_RelayErrorResponse method_not_found_body = Inl UnmarshalTypeError \<and>
   Unmarshal IntoRpcResponse
     \<in> set (fst (CallWithBloxrouteAuthHeader example_rpc (answering method_not_found_body)
                    ''blxr_simulate_bundle'' ''auth'' [Some (JObject [])])) \<and>
   snd (CallWithBloxrouteAuthHeader example_rpc (answering method_not_found_body)
          ''blxr_simulate_bundle'' ''auth'' [Some (JObject [])])
     = Err (RelayError ''method not found'')"
  using relay_error_precedence [of "answering flat_error_body" example_rpc "''auth''"
      "''blxr_simulate_bundle''" "JObject []" flat_error_body "[]"]
    relay_error_precedence [of "answering method_not_found_body" example_rpc "''auth''"
      "''blxr_simulate_bundle''" "JObject []" method_not_found_body "[]"]
  by (simp add: answering_simps unmarshal_flat_error unmarshal_flat_method_not_found
      unmarshal_method_not_found)

subsection \<open>The injected client\<close>

lemma POST_request_client:
  "POST_request (rpc\<lparr>client := c\<rparr>) own body = POST_request rpc own body"
  by (simp add: POST_request_def)

lemma Call_client:
  "Call (rpc\<lparr>client := c\<rparr>) env method params = Call rpc env method params"
  by (simp add: Call_def POST_request_client Let_def
      split: list.split option.split http_result.split sum.split)

lemma CallAuth_client:
  "CallWithBloxrouteAuthHeader (rpc\<lparr>client := c\<rparr>) env method authHeader params
     = CallWithBloxrouteAuthHeader rpc env method authHeader params"
  by (simp add: CallWithBloxrouteAuthHeader_def POST_request_client Let_def
      split: list.split option.split http_result.split sum.split)

text \<open>
  C10. Two clients that differ only in the \<open>client\<close> field, as \<open>WithHttpClient\<close> sets it,
  behave alike in \<open>Call\<close> and in \<open>CallWithBloxrouteAuthHeader\<close>: the same events and the
  same outcome, in every world and for every method and parameter list. Both calls go
  through a fresh \<open>http.Client\<close> built from \<open>Timeout\<close> alone.
\<close>

theorem client_field_unused:
  "Call (rpc\<lparr>client := c\<rparr>) env method params = Call rpc env method params \<and>
   CallWithBloxrouteAuthHeader (rpc\<lparr>client := c\<rparr>) env method authHeader params
     = CallWithBloxrouteAuthHeader rpc env method authHeader params \<and>
   Call (WithHttpClient c rpc) env method params = Call rpc env method params \<and>
   CallWithBloxrouteAuthHeader (WithHttpClient c rpc) env method authHeader params
     = CallWithBloxrouteAuthHeader rpc env method authHeader params"
  by (simp add: Call_client CallAuth_client WithHttpClient_def)

section \<open>Blocks and the selector\<close>

subsection \<open>Hash-only blocks\<close>

lemma toBlock_loop_fills:
  "i \<le> length hs \<Longrightarrow> length ts = length hs \<Longrightarrow>
   toBlock_loop hs i ts = Ok (take i ts @ map Transaction_with_Hash (drop i hs))"
proof (induction hs i ts rule: toBlock_loop.induct)
  case (1 hs i ts)
  show ?case
  proof (cases "i < length hs")
    case True
    then have its: "i < length ts" using "1.prems" by simp
    have ih: "toBlock_loop hs (Suc i) (ts[i := Transaction_with_Hash (hs ! i)])
                = Ok (take (Suc i) (ts[i := Transaction_with_Hash (hs ! i)])
                      @ map Transaction_with_Hash (drop (Suc i) hs))"
      using "1.IH" [OF True its] True "1.prems" by simp
    have tk: "take (Suc i) (ts[i := Transaction_with_Hash (hs ! i)])
                = take i ts @ [Transaction_with_Hash (hs ! i)]"
      using its by (simp add: take_Suc_conv_app_nth)
    have dr: "drop i hs = hs ! i # drop (Suc i) hs"
      using True by (simp add: Cons_nth_drop_Suc)
    show ?thesis
      using True its by (subst toBlock_loop.simps) (simp add: ih tk dr)
  next
    case False
    then have "i = length hs" using "1.prems" by simp
    then show ?thesis
      using "1.prems" by (subst toBlock_loop.simps) simp
  qed
qed

text \<open>
  C9. The hash-only block decoder turns the sequence of transaction hashes of the payload
  into a sequence of the same length and order, where each element is a \<open>Transaction\<close>
  whose \<open>Hash\<close> is the hash at that place and whose other fields are zero; the other
  fields of the block are copied. The loop never leaves the slice it fills.
\<close>

theorem hash_only_block:
  "toBlock proxy =
     Ok \<lparr>Block.Number = proxyBlockWithoutTransactions.Number proxy,
         Block.Hash = proxyBlockWithoutTransactions.Hash proxy,
         Block.ParentHash = proxyBlockWithoutTransactions.ParentHash proxy,
         Block.Nonce = proxyBlockWithoutTransactions.Nonce proxy,
         Block.Sha3Uncles = proxyBlockWithoutTransactions.Sha3Uncles proxy,
         Block.LogsBloom = proxyBlockWithoutTransactions.LogsBloom proxy,
         Block.TransactionsRoot = proxyBlockWithoutTransactions.TransactionsRoot proxy,
         Block.StateRoot = proxyBlockWithoutTransactions.StateRoot proxy,
         Block.Miner = proxyBlockWithoutTransactions.Miner proxy,
         Block.Difficulty = proxyBlockWithoutTransactions.Difficulty proxy,
         Block.TotalDifficulty = proxyBlockWithoutTransactions.TotalDifficulty proxy,
         Block.ExtraData = proxyBlockWithoutTransactions.ExtraData proxy,
         Block.Size = proxyBlockWithoutTransactions.Size proxy,
         Block.GasLimit = proxyBlockWithoutTransactions.GasLimit proxy,
         Block.GasUsed = proxyBlockWithoutTransactions.GasUsed proxy,
         Block.Timestamp = proxyBlockWithoutTransactions.Timestamp proxy,
         Block.Uncles = proxyBlockWithoutTransactions.Uncles proxy,
         Block.Transactions =
           map (\<lambda>h. \<lparr>Transaction.Hash = h, Transaction.Nonce = 0, BlockHash = [],
                       BlockNumber = None, TransactionIndex = None, From = [],
                       Transaction.To = [], Value = 0, Gas = 0, GasPrice = 0, Input = []\<rparr>)
             (proxyBlockWithoutTransactions.Transactions proxy)\<rparr>"
proof -
  let ?hs = "proxyBlockWithoutTransactions.Transactions proxy"
  have "toBlock_loop ?hs 0 (replicate (length ?hs) zero_Transaction)
          = Ok (map Transaction_with_Hash ?hs)"
    by (simp add: toBlock_loop_fills)
  moreover have "Transaction_with_Hash = (\<lambda>h. \<lparr>Transaction.Hash = h, Transaction.Nonce = 0, BlockHash = [],
                       BlockNumber = None, TransactionIndex = None, From = [],
                       Transaction.To = [], Value = 0, Gas = 0, GasPrice = 0, Input = []\<rparr>)"
    by (simp add: Transaction_with_Hash_def zero_Transaction_def fun_eq_iff)
  ultimately show ?thesis
    by (simp add: toBlock_def)
qed

theorem hash_only_block_witness:
  "\<exists>block. toBlock two_hash_proxy = Ok block \<and>
     length (Block.Transactions block) = 2 \<and>
     map Transaction.Hash (Block.Transactions block) = [''0xabc'', ''0xdef''] \<and>
     Block.Transactions block =
       [\<lparr>Transaction.Hash = ''0xabc'', Transaction.Nonce = 0, BlockHash = [],
          BlockNumber = None, TransactionIndex = None, From = [],
          Transaction.To = [], Value = 0, Gas = 0, GasPrice = 0, Input = []\<rparr>,
        \<lparr>Transaction.Hash = ''0xdef'', Transaction.Nonce = 0, BlockHash = [],
          BlockNumber = None, TransactionIndex = None, From = [],
          Transaction.To = [], Value = 0, Gas = 0, GasPrice = 0, Input = []\<rparr>]"
  using hash_only_block [of two_hash_proxy]
  by (simp add: two_hash_proxy_def)

subsection \<open>The selector\<close>

lemma strip_rlp_sliceable: "sliceable rlp \<Longrightarrow> strip_rlp rlp = Ok (spec_normalize rlp)"
  by (auto simp: sliceable_def strip_rlp_def spec_normalize_def split: if_splits)

lemma skipped_step:
  "\<not> kept cb tx \<Longrightarrow> select_loop cb maxTx (tx # rest) txs = select_loop cb maxTx rest txs"
  by (auto simp: kept_def from_coinbase_def to_coinbase_def split: option.splits)

lemma kept_step:
  "kept cb tx \<Longrightarrow> sliceable (TxToRlp tx) \<Longrightarrow>
   select_loop cb maxTx (tx # rest) txs =
     (if maxTx > 0 \<and> int (Suc (length txs)) = maxTx then Ok (txs @ [spec_emit tx])
      else select_loop cb maxTx rest (txs @ [spec_emit tx]))"
  by (auto simp: kept_def from_coinbase_def to_coinbase_def strip_rlp_sliceable spec_emit_def
      Let_def split: option.splits)

lemma select_loop_unlimited:
  assumes "maxTx \<le> 0"
    and "list_all (\<lambda>tx. kept cb tx \<longrightarrow> sliceable (TxToRlp tx)) rest"
  shows "select_loop cb maxTx rest txs = Ok (txs @ map spec_emit (filter (kept cb) rest))"
  using assms(2)
proof (induction rest arbitrary: txs)
  case Nil
  then show ?case by simp
next
  case (Cons tx rest)
  show ?case
  proof (cases "kept cb tx")
    case True
    then have "sliceable (TxToRlp tx)" using Cons.prems by simp
    then show ?thesis
      using True assms(1) Cons.prems by (simp add: kept_step Cons.IH del: select_loop.simps)
  next
    case False
    then show ?thesis
      using Cons.prems by (simp add: skipped_step Cons.IH del: select_loop.simps)
  qed
qed

lemma select_loop_limited:
  assumes "0 < maxTx"
    and "list_all (\<lambda>tx. kept cb tx \<longrightarrow> sliceable (TxToRlp tx)) rest"
    and "length txs < nat maxTx"
  shows "select_loop cb maxTx rest txs
           = Ok (txs @ take (nat maxTx - length txs) (map spec_emit (filter (kept cb) rest)))"
  using assms(2,3)
proof (induction rest arbitrary: txs)
  case Nil
  then show ?case by simp
next
  case (Cons tx rest)
  show ?case
  proof (cases "kept cb tx")
    case False
    then show ?thesis
      using Cons.prems by (simp add: skipped_step Cons.IH del: select_loop.simps)
  next
    case True
    then have sl: "sliceable (TxToRlp tx)" using Cons.prems by simp
    have rest: "list_all (\<lambda>tx. kept cb tx \<longrightarrow> sliceable (TxToRlp tx)) rest"
      using Cons.prems by simp
    show ?thesis
    proof (cases "Suc (length txs) = nat maxTx")
      case full: True
      then have "int (Suc (length txs)) = maxTx" using assms(1) by linarith
      moreover have "nat maxTx - length txs = Suc 0" using full by simp
      ultimately show ?thesis
        using True sl assms(1) by (simp add: kept_step del: select_loop.simps)
    next
      case room: False
      then have lt: "length (txs @ [spec_emit tx]) < nat maxTx" using Cons.prems by simp
      have ne: "int (Suc (length txs)) \<noteq> maxTx" using room by linarith
      have sp: "nat maxTx - length txs = Suc (nat maxTx - length (txs @ [spec_emit tx]))"
        using lt by simp
      show ?thesis
        using True sl ne
        by (simp add: kept_step Cons.IH [OF rest lt] sp del: select_loop.simps)
    qed
  qed
qed

lemma select_txs_spec:
  assumes "all_sliceable block"
  shows "select_txs block maxTx
           = Ok (capped maxTx (map spec_emit (filter (kept (Coinbase block))
                                                (types_Block.Transactions block))))"
proof (cases "0 < maxTx")
  case True
  then have "length ([]::string list) < nat maxTx" by simp
  from select_loop_limited [OF True assms [unfolded all_sliceable_def] this]
  show ?thesis using True by (simp add: select_txs_def capped_def)
next
  case False
  then have "maxTx \<le> 0" by simp
  from select_loop_unlimited [OF this assms [unfolded all_sliceable_def]]
  show ?thesis using False by (simp add: select_txs_def capped_def)
qed

lemma filter_single_of_mset:
  assumes "mset xs = {#a, b, c#}" "\<not> P a" "\<not> P b" "P c"
  shows "filter P xs = [c]"
proof -
  have "mset (filter P xs) = filter_mset P (mset xs)" by simp
  also have "\<dots> = {#c#}" using assms by simp
  finally have "mset (filter P xs) = {#c#}" .
  then show ?thesis by (simp only: mset_single_iff)
qed

lemma example_emits:
  "spec_emit tx_ordinary = ''0x02c0''" "spec_emit tx_long = ''0x02c1''"
  "spec_emit tx_plain = ''0xf80182''"
  by (simp_all add: spec_emit_def spec_normalize_def TxToRlp_def fmt_x_bytes_def hex_digit_def
      tx_ordinary_def tx_long_def tx_plain_def)

lemma example_kept:
  "\<not> kept 0xCAFE tx_from_coinbase" "\<not> kept 0xCAFE tx_to_coinbase"
  "kept 0xCAFE tx_ordinary" "kept 0xCAFE tx_long" "kept 0xCAFE tx_plain"
  by (simp_all add: kept_def from_coinbase_def to_coinbase_def
      tx_from_coinbase_def tx_to_coinbase_def tx_ordinary_def tx_long_def tx_plain_def)

lemma example_sliceable:
  "sliceable (TxToRlp tx_ordinary)" "sliceable (TxToRlp tx_long)" "sliceable (TxToRlp tx_plain)"
  by (simp_all add: sliceable_def TxToRlp_def fmt_x_bytes_def hex_digit_def
      tx_ordinary_def tx_long_def tx_plain_def)

lemma examples_all_sliceable: "all_sliceable scenario_block" "all_sliceable five_block"
  by (simp_all add: all_sliceable_def scenario_block_def five_block_def example_kept
      example_sliceable)

subsection \<open>Encodings with a complete header, and the request that carries the output\<close>

lemma hex_digit_eq:
  assumes "d < 16" "hex_digit d = hex_digit e" "e < 16"
  shows "d = e"
proof -
  have "digit_val (hex_digit d) = digit_val (hex_digit e)" using assms(2) by simp
  then show ?thesis using assms(1,3) by (simp add: digit_val_hex_digit)
qed

lemma hex_b9: "hex_digit 11 = CHR ''b''" "hex_digit 9 = CHR ''9''" "hex_digit 8 = CHR ''8''"
  by (simp_all add: hex_digit_def)

lemma first_byte:
  fixes b :: byte
  assumes "hex_digit (unat b div 16) = hex_digit hi" "hex_digit (unat b mod 16) = hex_digit lo"
    and "hi < 16" "lo < 16"
  shows "unat b = hi * 16 + lo"
proof -
  have d: "unat b div 16 < 16" by (rule high_nibble)
  have m: "unat b mod 16 < 16" by simp
  have "unat b div 16 = hi" using hex_digit_eq [OF d assms(1) assms(3)] .
  moreover have "unat b mod 16 = lo" using hex_digit_eq [OF m assms(2) assms(4)] .
  ultimately show ?thesis using div_mult_mod_eq [of "unat b" 16] by simp
qed

lemma header_complete_sliceable:
  assumes "header_complete (EncodeRLP tx)"
  shows "sliceable (TxToRlp tx)"
proof -
  from assms obtain b bs where e: "EncodeRLP tx = b # bs"
    by (cases "EncodeRLP tx") (simp_all add: header_complete_def)
  have r: "TxToRlp tx = hex_digit (unat b div 16) # hex_digit (unat b mod 16)
                          # fmt_x_bytes bs"
    by (simp add: TxToRlp_def e fmt_x_bytes_def)
  have len: "length (TxToRlp tx) = 2 * length (EncodeRLP tx)"
    by (simp add: TxToRlp_def length_fmt_x_bytes)
  have b9: "take 2 (TxToRlp tx) = ''b9'' \<Longrightarrow> b = 0xb9"
  proof -
    assume "take 2 (TxToRlp tx) = ''b9''"
    then have "hex_digit (unat b div 16) = hex_digit 11" "hex_digit (unat b mod 16) = hex_digit 9"
      by (simp_all add: r hex_b9)
    then have "unat b = 11 * 16 + 9" by (rule first_byte) simp_all
    then have "unat b = unat (0xb9 :: byte)" by simp
    then show "b = 0xb9" by (simp only: word_unat_eq_iff)
  qed
  have b8: "take 2 (TxToRlp tx) = ''b8'' \<Longrightarrow> b = 0xb8"
  proof -
    assume "take 2 (TxToRlp tx) = ''b8''"
    then have "hex_digit (unat b div 16) = hex_digit 11" "hex_digit (unat b mod 16) = hex_digit 8"
      by (simp_all add: r hex_b9)
    then have "unat b = 11 * 16 + 8" by (rule first_byte) simp_all
    then have "unat b = unat (0xb8 :: byte)" by simp
    then show "b = 0xb8" by (simp only: word_unat_eq_iff)
  qed
  have two: "2 \<le> length (TxToRlp tx)" by (simp add: len e)
  have six: "take 2 (TxToRlp tx) = ''b9'' \<Longrightarrow> 6 \<le> length (TxToRlp tx)"
  proof -
    assume "take 2 (TxToRlp tx) = ''b9''"
    then have "b = 0xb9" by (rule b9)
    then have "3 \<le> length (EncodeRLP tx)" using assms by (simp add: header_complete_def e)
    then show ?thesis by (simp add: len)
  qed
  have four: "take 2 (TxToRlp tx) = ''b8'' \<Longrightarrow> 4 \<le> length (TxToRlp tx)"
  proof -
    assume "take 2 (TxToRlp tx) = ''b8''"
    then have "b = 0xb8" by (rule b8)
    then have "2 \<le> length (EncodeRLP tx)" using assms by (simp add: header_complete_def e)
    then show ?thesis by (simp add: len)
  qed
  show ?thesis
    unfolding sliceable_def using two six four by simp
qed

lemma Hex_not_Nil: "Hex h \<noteq> []"
  by (simp add: Hex_def)

lemma BloxrouteSimulateBlock_sends:
  assumes "NewRequest_ok env ''POST'' (url rpc)" and "select_txs block maxTx = Ok txs"
  shows "sent_bodies (fst (BloxrouteSimulateBlock_call rpc env authHeader block maxTx)) =
           [envelope ''blxr_simulate_bundle''
              (JObject [(''transaction'', JArray (map JString txs)),
                        (''block_number'', JString (''0x'' @ fmt_x_int (types_Block.Number block))),
                        (''state_block_number'', JString (Hex (types_Block.ParentHash block)))])]"
proof -
  let ?p = "JObject [(''transaction'', JArray (map JString txs)),
                        (''block_number'', JString (''0x'' @ fmt_x_int (types_Block.Number block))),
                        (''state_block_number'', JString (Hex (types_Block.ParentHash block)))]"
  have "BloxrouteSimulateBlock_call rpc env authHeader block maxTx
          = CallWithBloxrouteAuthHeader rpc env ''blxr_simulate_bundle'' authHeader [Some ?p]"
    using assms(2)
    by (simp add: BloxrouteSimulateBlock_call_def simulate_block_params_def
        BloxrouteSimulateBundle_call_def marshal_BloxrouteSimulateBundleRequest_def Hex_not_Nil)
  with CallAuth_sent [OF assms(1), of "''blxr_simulate_bundle''" authHeader ?p "[]"]
  show ?thesis by (auto simp: POST_request_def)
qed

subsection \<open>What the selector emits\<close>

text \<open>
  C5. For a block whose kept transactions have encodings long enough for the slice
  expressions, and no cap (\<open>maxTx\<close> not positive): the selector emits, in block order,
  exactly the transactions whose recovered sender is not the coinbase and whose recipient
  is not the coinbase; a transaction whose sender is not recovered and whose recipient is
  not the coinbase is emitted; and for coinbase \<open>0xCAFE\<close> and the three transactions
  of the scenario, in any order, the output is the encoded form of the third alone.
\<close>

theorem selection_by_coinbase:
  assumes "all_sliceable block" and "maxTx \<le> 0"
  shows "select_txs block maxTx =
           Ok (map spec_emit
                 (filter (\<lambda>tx. Sender tx \<noteq> Some (Coinbase block) \<and>
                                types_Transaction.To tx \<noteq> Some (Coinbase block))
                    (types_Block.Transactions block))) \<and>
         (\<forall>tx\<in>set (types_Block.Transactions block).
            Sender tx = None \<and> types_Transaction.To tx \<noteq> Some (Coinbase block) \<longrightarrow>
            (\<exists>out. select_txs block maxTx = Ok out \<and> spec_emit tx \<in> set out)) \<and>
         (Coinbase block = 0xCAFE \<and> mset (types_Block.Transactions block) = {#tx1, tx2, tx3#} \<and>
          Sender tx1 = Some 0xCAFE \<and> types_Transaction.To tx2 = Some 0xCAFE \<and>
          Sender tx3 \<noteq> Some 0xCAFE \<and> types_Transaction.To tx3 \<noteq> Some 0xCAFE \<longrightarrow>
          select_txs block maxTx = Ok [spec_emit tx3])"
proof -
  let ?cb = "Coinbase block" and ?txs = "types_Block.Transactions block"
  have k: "kept ?cb = (\<lambda>tx. Sender tx \<noteq> Some ?cb \<and> types_Transaction.To tx \<noteq> Some ?cb)"
    by (simp add: kept_def from_coinbase_def to_coinbase_def fun_eq_iff)
  have out: "select_txs block maxTx = Ok (map spec_emit (filter (kept ?cb) ?txs))"
    using select_txs_spec [OF assms(1), of maxTx] assms(2) by (simp add: capped_def)
  show ?thesis
  proof (intro conjI ballI impI)
    show "select_txs block maxTx =
           Ok (map spec_emit
                 (filter (\<lambda>tx. Sender tx \<noteq> Some ?cb \<and> types_Transaction.To tx \<noteq> Some ?cb) ?txs))"
      using out by (simp only: k)
  next
    fix tx
    assume "tx \<in> set ?txs"
      and "Sender tx = None \<and> types_Transaction.To tx \<noteq> Some ?cb"
    then have "tx \<in> set (filter (kept ?cb) ?txs)" by (simp add: k)
    then have "spec_emit tx \<in> set (map spec_emit (filter (kept ?cb) ?txs))"
      by simp
    with out show "\<exists>out. select_txs block maxTx = Ok out \<and> spec_emit tx \<in> set out" by blast
  next
    assume s: "Coinbase block = 0xCAFE \<and> mset ?txs = {#tx1, tx2, tx3#} \<and>
          Sender tx1 = Some 0xCAFE \<and> types_Transaction.To tx2 = Some 0xCAFE \<and>
          Sender tx3 \<noteq> Some 0xCAFE \<and> types_Transaction.To tx3 \<noteq> Some 0xCAFE"
    then have "filter (kept ?cb) ?txs = [tx3]"
      by (intro filter_single_of_mset [of _ tx1 tx2])
        (simp_all add: kept_def from_coinbase_def to_coinbase_def)
    with out show "select_txs block maxTx = Ok [spec_emit tx3]" by simp
  qed
qed

theorem selection_by_coinbase_witness:
  "all_sliceable scenario_block \<and> (0::int) \<le> 0 \<and>
   Coinbase scenario_block = 0xCAFE \<and>
   types_Block.Transactions scenario_block = [tx_from_coinbase, tx_to_coinbase, tx_ordinary] \<and>
   Sender tx_from_coinbase = Some 0xCAFE \<and> types_Transaction.To tx_to_coinbase = Some 0xCAFE \<and>
   Sender tx_ordinary = None \<and> types_Transaction.To tx_ordinary = Some 0xBEEF \<and>
   select_txs scenario_block 0 = Ok [spec_emit tx_ordinary] \<and>
   spec_emit tx_ordinary = ''0x02c0''"
proof -
  have a: "all_sliceable scenario_block" by (rule examples_all_sliceable)
  have z: "(0::int) \<le> 0" by simp
  have facts:
    "Coinbase scenario_block = 0xCAFE"
    "types_Block.Transactions scenario_block = [tx_from_coinbase, tx_to_coinbase, tx_ordinary]"
    "Sender tx_from_coinbase = Some 0xCAFE" "types_Transaction.To tx_to_coinbase = Some 0xCAFE"
    "Sender tx_ordinary = None" "types_Transaction.To tx_ordinary = Some 0xBEEF"
    by (simp_all add: scenario_block_def tx_from_coinbase_def tx_to_coinbase_def tx_ordinary_def)
  from selection_by_coinbase [OF a z, of tx_from_coinbase tx_to_coinbase tx_ordinary]
  have "select_txs scenario_block 0 = Ok [spec_emit tx_ordinary]"
    by (simp add: facts)
  with a facts show ?thesis by (simp add: example_emits)
qed

text \<open>
  C6. For a block whose kept transactions have encodings long enough for the slice
  expressions: the selector emits, for each kept transaction up to the cap, \<open>0x\<close>
  followed by its lowercase hex after the prefix rule (six characters dropped after
  \<open>b9\<close>, four after \<open>b8\<close>, nothing otherwise), and with a positive \<open>maxTx\<close> it stops
  at \<open>maxTx\<close> transactions.
\<close>

theorem encoding_and_cap:
  assumes "all_sliceable block"
  shows "select_txs block maxTx =
           Ok (capped maxTx (map spec_emit (filter (kept (Coinbase block))
                                               (types_Block.Transactions block)))) \<and>
         (\<forall>tx. spec_emit tx =
                 ''0x'' @ (if take 2 (TxToRlp tx) = ''b9'' then drop 6 (TxToRlp tx)
                           else if take 2 (TxToRlp tx) = ''b8'' then drop 4 (TxToRlp tx)
                           else TxToRlp tx) \<and>
               is_hex (TxToRlp tx)) \<and>
         (0 < maxTx \<longrightarrow> (\<exists>out. select_txs block maxTx = Ok out \<and> int (length out) \<le> maxTx))"
proof (intro conjI allI impI)
  show out: "select_txs block maxTx =
           Ok (capped maxTx (map spec_emit (filter (kept (Coinbase block))
                                               (types_Block.Transactions block))))"
    by (rule select_txs_spec [OF assms])
  show "0 < maxTx \<Longrightarrow> \<exists>out. select_txs block maxTx = Ok out \<and> int (length out) \<le> maxTx"
    using out by (auto simp: capped_def)
next
  fix tx
  show "spec_emit tx =
                 ''0x'' @ (if take 2 (TxToRlp tx) = ''b9'' then drop 6 (TxToRlp tx)
                           else if take 2 (TxToRlp tx) = ''b8'' then drop 4 (TxToRlp tx)
                           else TxToRlp tx)"
    by (simp add: spec_emit_def spec_normalize_def)
  show "is_hex (TxToRlp tx)"
    by (simp add: TxToRlp_def is_hex_fmt_x_bytes)
qed

theorem encoding_and_cap_witness:
  "all_sliceable five_block \<and>
   select_txs five_block 2 = Ok [''0x02c0'', ''0x02c1''] \<and>
   select_txs five_block 0 = Ok [''0x02c0'', ''0x02c1'', ''0xf80182''] \<and>
   TxToRlp tx_long = ''b9000202c1'' \<and> TxToRlp tx_ordinary = ''b80202c0'' \<and>
   TxToRlp tx_plain = ''f80182''"
proof -
  have a: "all_sliceable five_block" by (rule examples_all_sliceable)
  have k: "filter (kept (Coinbase five_block)) (types_Block.Transactions five_block)
             = [tx_ordinary, tx_long, tx_plain]"
    by (simp add: five_block_def example_kept)
  from encoding_and_cap [OF a, of 2]
  have two: "select_txs five_block 2 = Ok [''0x02c0'', ''0x02c1'']"
    by (simp add: k capped_def example_emits)
  from encoding_and_cap [OF a, of 0]
  have all: "select_txs five_block 0 = Ok [''0x02c0'', ''0x02c1'', ''0xf80182'']"
    by (simp add: k capped_def example_emits)
  have "TxToRlp tx_long = ''b9000202c1''" "TxToRlp tx_ordinary = ''b80202c0''"
    "TxToRlp tx_plain = ''f80182''"
    by (simp_all add: TxToRlp_def fmt_x_bytes_def hex_digit_def tx_ordinary_def tx_long_def
        tx_plain_def)
  with a two all show ?thesis by simp
qed

end
